theory Spec2Isabelle
  imports Complex_Main "HOL-Library.Word"
begin

unbundle bit_operations_syntax

section \<open>JavaScript values used by zkActionService.ts\<close>

text \<open>
  The service is TypeScript. Its \<^verbatim>\<open>number\<close> arguments are modelled by their exact
  rational value (every finite double is a rational; NaN and the infinities are left
  out), its \<^verbatim>\<open>bigint\<close> values by \<open>int\<close>, its strings by \<open>string\<close>, and the
  elements of a \<^verbatim>\<open>Uint8Array\<close> by \<open>8 word\<close>. A thrown exception or a rejected
  promise is the \<open>Inl\<close> branch of a sum; \<^verbatim>\<open>await\<close> is sequencing.
\<close>

type_synonym number = rat
type_synonym bigint = int
type_synonym byte = "8 word"

datatype error = TypeError | RangeError | SyntaxError | HostError

type_synonym 'a result = "error + 'a"

text \<open>\<^verbatim>\<open>try { body } catch { handler }\<close>\<close>

definition try_catch :: "'a result \<Rightarrow> (error \<Rightarrow> 'a result) \<Rightarrow> 'a result" where
  "try_catch body handler = (case body of Inl e \<Rightarrow> handler e | Inr v \<Rightarrow> Inr v)"

text \<open>\<^verbatim>\<open>BigInt(x)\<close> of a number: a RangeError unless the number is an integer.\<close>

definition BigInt :: "number \<Rightarrow> bigint result" where
  "BigInt x = (if of_int \<lfloor>x\<rfloor> = x then Inr \<lfloor>x\<rfloor> else Inl RangeError)"

text \<open>\<^verbatim>\<open>Number(b)\<close> of a bigint (exact below \<open>2 ^ 53\<close>, the only use here).\<close>

definition Number :: "bigint \<Rightarrow> number" where
  "Number b = of_int b"

text \<open>ToUint32, the conversion behind \<^verbatim>\<open>x >>> 0\<close> and \<^verbatim>\<open>DataView.setUint32\<close>:
  truncate towards zero, then reduce modulo \<open>2 ^ 32\<close>.\<close>

definition ToUint32 :: "number \<Rightarrow> nat" where
  "ToUint32 x = nat ((if 0 \<le> x then \<lfloor>x\<rfloor> else \<lceil>x\<rceil>) mod 2 ^ 32)"

subsection \<open>Strings\<close>

definition hex_digit :: "nat \<Rightarrow> char" where
  "hex_digit d = ''0123456789abcdef'' ! d"

text \<open>The digits of \<^verbatim>\<open>n.toString(16)\<close> for a non-negative \<open>n\<close>: no leading zero,
  lowercase, and \<open>''0''\<close> for zero.\<close>

fun digits16 :: "nat \<Rightarrow> string" where
  "digits16 n = (if n < 16 then [hex_digit n] else digits16 (n div 16) @ [hex_digit (n mod 16)])"

declare digits16.simps [simp del]

definition toString16 :: "int \<Rightarrow> string" where
  "toString16 i = (if i < 0 then CHR ''-'' # digits16 (nat (- i)) else digits16 (nat i))"

definition padStart :: "nat \<Rightarrow> char \<Rightarrow> string \<Rightarrow> string" where
  "padStart n c s = replicate (n - length s) c @ s"

text \<open>\<^verbatim>\<open>toLowerCase\<close> on the characters a \<open>string\<close> holds: the letters A to Z move
  to a to z, every other character stays.\<close>

definition lower_char :: "char \<Rightarrow> char" where
  "lower_char c = (let n = (of_char c :: nat) in
     if 65 \<le> n \<and> n \<le> 90 then char_of (n + 32) else c)"

definition toLowerCase :: "string \<Rightarrow> string" where
  "toLowerCase s = map lower_char s"

subsection \<open>DataView\<close>

text \<open>\<^verbatim>\<open>view.setUint32(offset, value, littleEndian)\<close> on a buffer of bytes: a
  RangeError when the four bytes do not fit, else the value's ToUint32 image written
  at \<open>offset .. offset + 3\<close>, most significant byte first unless \<open>littleEndian\<close>.\<close>

definition setUint32 :: "byte list \<Rightarrow> nat \<Rightarrow> number \<Rightarrow> bool \<Rightarrow> byte list result" where
  "setUint32 buf offset v littleEndian =
     (if length buf < offset + 4 then Inl RangeError
      else let u = ToUint32 v;
               b3 = of_nat (u div 2 ^ 24 mod 256);
               b2 = of_nat (u div 2 ^ 16 mod 256);
               b1 = of_nat (u div 2 ^ 8 mod 256);
               b0 = of_nat (u mod 256)
           in Inr (if littleEndian
                   then buf[offset := b0, offset + 1 := b1, offset + 2 := b2, offset + 3 := b3]
                   else buf[offset := b3, offset + 1 := b2, offset + 2 := b1, offset + 3 := b0]))"

section \<open>The SHA-256 revision of zkActionService.ts\<close>

text \<open>
  \<^verbatim>\<open>crypto.subtle.digest('SHA-256', buf)\<close> is the host's digest: the parameter
  \<open>digest\<close>, a function from the bytes to the digest's bytes that may reject.
\<close>

definition sha256Commitment :: "(byte list \<Rightarrow> byte list result) \<Rightarrow> number \<Rightarrow> bigint \<Rightarrow> string result" where
  "sha256Commitment digest target nonce =
     (let buf = replicate 12 (0 :: byte) in
      case setUint32 buf 0 (of_nat (ToUint32 target)) False of Inl e \<Rightarrow> Inl e | Inr buf1 \<Rightarrow>
      let hi = Number (drop_bit 32 nonce AND 0xFFFFFFFF);
          lo = Number (nonce AND 0xFFFFFFFF) in
      case setUint32 buf1 4 hi False of Inl e \<Rightarrow> Inl e | Inr buf2 \<Rightarrow>
      case setUint32 buf2 8 lo False of Inl e \<Rightarrow> Inl e | Inr buf3 \<Rightarrow>
      case digest buf3 of Inl e \<Rightarrow> Inl e | Inr d \<Rightarrow>
      Inr (''0x'' @ concat (map (\<lambda>b. padStart 2 CHR ''0'' (toString16 (uint b))) d)))"

definition zkVerify :: "(byte list \<Rightarrow> byte list result) \<Rightarrow> string \<Rightarrow> number \<Rightarrow> bigint \<Rightarrow> bool result" where
  "zkVerify digest commitment target nonce =
     try_catch
       (case sha256Commitment digest target nonce of Inl e \<Rightarrow> Inl e
        | Inr recomputed \<Rightarrow> Inr (toLowerCase recomputed = toLowerCase commitment))
       (\<lambda>_. Inr False)"

subsection \<open>The client-held commitment store\<close>

text \<open>
  A \<^verbatim>\<open>ZkCommitment\<close>. The type of the nonce field is a parameter: it is a \<open>bigint\<close>
  in every entry the SHA-256 revision handles, and either a bigint or a value read back
  from JSON in the Poseidon revision, which does not restore it on load. The field
  \<^verbatim>\<open>round\<close> is named \<open>round_no\<close>.
\<close>

record 'n ZkCommitment_rec =
  commitment :: string
  nonce :: 'n
  target :: number
  sessionId :: number
  round_no :: number
  phase :: number
  createdAt :: string

type_synonym ZkCommitment = "bigint ZkCommitment_rec"

text \<open>
  The item of \<^verbatim>\<open>localStorage\<close> under \<^verbatim>\<open>STORAGE_KEY\<close>: absent, text that
  \<^verbatim>\<open>loadAll\<close> fails on (its \<^verbatim>\<open>catch\<close> branch), or the entries \<^verbatim>\<open>saveAll\<close>
  wrote. The JSON text itself is not modelled: \<^verbatim>\<open>saveAll\<close> writes each nonce as
  its decimal string and \<^verbatim>\<open>loadAll\<close> reads it back with \<^verbatim>\<open>BigInt\<close>, which
  returns the same bigint.
\<close>

datatype 'a storage = Absent | Unparsable | Stored "'a list"

definition loadAll :: "ZkCommitment storage \<Rightarrow> ZkCommitment list" where
  "loadAll st = (case st of Absent \<Rightarrow> [] | Unparsable \<Rightarrow> [] | Stored items \<Rightarrow> items)"

text \<open>\<^verbatim>\<open>items.slice(start)\<close>: a negative start counts from the end.\<close>

definition slice :: "int \<Rightarrow> 'a list \<Rightarrow> 'a list" where
  "slice start xs =
     (let len = int (length xs);
          k = (if start < 0 then max (len + start) 0 else min start len)
      in drop (nat k) xs)"

definition saveAll :: "ZkCommitment list \<Rightarrow> ZkCommitment storage" where
  "saveAll items = Stored (slice (- 50) items)"

text \<open>
  \<^verbatim>\<open>zkCommit\<close>. The bytes of \<^verbatim>\<open>crypto.getRandomValues(new Uint8Array(8))\<close> and
  the timestamp \<^verbatim>\<open>new Date().toISOString()\<close> are inputs; the result is the entry
  and the new content of the store.
\<close>

definition zkCommit ::
  "(byte list \<Rightarrow> byte list result) \<Rightarrow> string \<Rightarrow> byte list \<Rightarrow>
   number \<Rightarrow> number \<Rightarrow> number \<Rightarrow> number \<Rightarrow> ZkCommitment storage \<Rightarrow>
   (ZkCommitment \<times> ZkCommitment storage) result" where
  "zkCommit digest now rawBytes tgt sid rnd ph st =
     (let n = foldl (\<lambda>n byte. push_bit 8 n OR uint byte) 0 rawBytes in
      case sha256Commitment digest tgt n of Inl e \<Rightarrow> Inl e | Inr c \<Rightarrow>
        (let entry = \<lparr>commitment = c, nonce = n, target = tgt, sessionId = sid,
                       round_no = rnd, phase = ph, createdAt = now\<rparr>;
             all = loadAll st
         in Inr (entry, saveAll (all @ [entry]))))"

text \<open>
  \<^verbatim>\<open>getStoredCommitment\<close>: the loop \<^verbatim>\<open>for (i = all.length - 1; i >= 0; i--)\<close>,
  with the counter \<open>k = i + 1\<close>.
\<close>

fun scan_back :: "ZkCommitment list \<Rightarrow> nat \<Rightarrow> number \<Rightarrow> number \<Rightarrow> number \<Rightarrow> ZkCommitment option" where
  "scan_back all 0 sid rnd ph = None"
| "scan_back all (Suc i) sid rnd ph =
     (let c = all ! i in
      if sessionId c = sid \<and> round_no c = rnd \<and> phase c = ph then Some c
      else scan_back all i sid rnd ph)"

definition getStoredCommitment ::
  "ZkCommitment storage \<Rightarrow> number \<Rightarrow> number \<Rightarrow> number \<Rightarrow> ZkCommitment option" where
  "getStoredCommitment st sid rnd ph =
     (let all = loadAll st in scan_back all (length all) sid rnd ph)"

section \<open>The Poseidon revision of zkActionService.ts\<close>

definition SNARK_FIELD_SIZE :: bigint where
  "SNARK_FIELD_SIZE =
     21888242871839275222246405745257275088548364400416034343698204186575808495617"

text \<open>The remainder \<^verbatim>\<open>a % b\<close> of bigints takes the sign of \<open>a\<close>.\<close>

definition bigint_rem :: "bigint \<Rightarrow> bigint \<Rightarrow> bigint" where
  "bigint_rem a b = sgn a * (\<bar>a\<bar> mod \<bar>b\<bar>)"

text \<open>
  \<^verbatim>\<open>poseidon2\<close> comes from the package poseidon-lite: the parameter \<open>poseidon2\<close>,
  a function of the inputs that may throw. Both \<^verbatim>\<open>zkCommit\<close> (lines 88 to 90) and
  \<^verbatim>\<open>zkVerify\<close> (lines 119 and 120) of this revision compute the commitment string
  by the same expression, \<open>poseidonCommitment\<close> here;
  \<open>hashHex\<close> is its part after the hash.
\<close>

definition hashHex :: "bigint \<Rightarrow> string" where
  "hashHex h = ''0x'' @ padStart 64 CHR ''0'' (toString16 h)"

definition poseidonCommitment ::
  "(bigint list \<Rightarrow> bigint result) \<Rightarrow> number \<Rightarrow> bigint \<Rightarrow> string result" where
  "poseidonCommitment poseidon2 tgt n =
     (case BigInt tgt of Inl e \<Rightarrow> Inl e | Inr t \<Rightarrow>
      case poseidon2 [t, n] of Inl e \<Rightarrow> Inl e | Inr h \<Rightarrow> Inr (hashHex h))"

text \<open>
  The nonce field of an entry at run time: a bigint in the entry \<^verbatim>\<open>zkCommit\<close> has
  just built, and whatever \<^verbatim>\<open>JSON.parse\<close> returned (never a bigint) in an entry that
  \<^verbatim>\<open>loadAll\<close> of this revision read.
\<close>

datatype nonce_field = BigIntValue bigint | JsonValue string

fun is_BigIntValue :: "nonce_field \<Rightarrow> bool" where
  "is_BigIntValue (BigIntValue _) = True"
| "is_BigIntValue (JsonValue _) = False"

text \<open>\<^verbatim>\<open>JSON.stringify\<close> without a replacer throws a TypeError on a bigint.\<close>

definition JSON_stringify ::
  "nonce_field ZkCommitment_rec list \<Rightarrow> nonce_field ZkCommitment_rec list result" where
  "JSON_stringify items =
     (if list_ex (\<lambda>c. is_BigIntValue (nonce c)) items then Inl TypeError else Inr items)"

definition loadAll_poseidon ::
  "nonce_field ZkCommitment_rec storage \<Rightarrow> nonce_field ZkCommitment_rec list" where
  "loadAll_poseidon st = (case st of Absent \<Rightarrow> [] | Unparsable \<Rightarrow> [] | Stored items \<Rightarrow> items)"

definition saveAll_poseidon ::
  "nonce_field ZkCommitment_rec list \<Rightarrow> nonce_field ZkCommitment_rec storage result" where
  "saveAll_poseidon items =
     (case JSON_stringify (slice (- 50) items) of Inl e \<Rightarrow> Inl e | Inr text \<Rightarrow> Inr (Stored text))"

definition zkCommit_poseidon ::
  "(bigint list \<Rightarrow> bigint result) \<Rightarrow> string \<Rightarrow> byte list \<Rightarrow>
   number \<Rightarrow> number \<Rightarrow> number \<Rightarrow> number \<Rightarrow> nonce_field ZkCommitment_rec storage \<Rightarrow>
   (nonce_field ZkCommitment_rec \<times> nonce_field ZkCommitment_rec storage) result" where
  "zkCommit_poseidon poseidon2 now rawBytes tgt sid rnd ph st =
     (let n0 = foldl (\<lambda>n byte. push_bit 8 n OR uint byte) 0 rawBytes;
          n = bigint_rem n0 SNARK_FIELD_SIZE in
      case poseidonCommitment poseidon2 tgt n of Inl e \<Rightarrow> Inl e | Inr c \<Rightarrow>
        (let entry = \<lparr>commitment = c, nonce = BigIntValue n, target = tgt, sessionId = sid,
                       round_no = rnd, phase = ph, createdAt = now\<rparr>;
             all = loadAll_poseidon st
         in case saveAll_poseidon (all @ [entry]) of Inl e \<Rightarrow> Inl e
            | Inr st' \<Rightarrow> Inr (entry, st')))"

definition zkVerify_poseidon ::
  "(bigint list \<Rightarrow> bigint result) \<Rightarrow> string \<Rightarrow> number \<Rightarrow> bigint \<Rightarrow> bool result" where
  "zkVerify_poseidon poseidon2 c tgt n =
     try_catch
       (case poseidonCommitment poseidon2 tgt n of Inl e \<Rightarrow> Inl e
        | Inr recomputedHex \<Rightarrow> Inr (toLowerCase recomputedHex = toLowerCase c))
       (\<lambda>_. Inr False)"

section \<open>SHA-256\<close>

text \<open>
  The digest the browser computes for \<^verbatim>\<open>'SHA-256'\<close> is the function of FIPS 180-4.
  It is written out here on 32-bit values held as natural numbers, with the reduction
  modulo \<open>2 ^ 32\<close> explicit, so that a digest can be computed by rewriting.
\<close>

definition rotr32 :: "nat \<Rightarrow> nat \<Rightarrow> nat" where
  "rotr32 n x = x div 2 ^ n + (x mod 2 ^ n) * 2 ^ (32 - n)"

definition ch32 :: "nat \<Rightarrow> nat \<Rightarrow> nat \<Rightarrow> nat" where
  "ch32 u v w = (u AND v) XOR ((4294967295 - u) AND w)"

definition maj32 :: "nat \<Rightarrow> nat \<Rightarrow> nat \<Rightarrow> nat" where
  "maj32 u v w = (u AND v) XOR (u AND w) XOR (v AND w)"

definition big_sigma0 :: "nat \<Rightarrow> nat" where
  "big_sigma0 u = rotr32 2 u XOR rotr32 13 u XOR rotr32 22 u"

definition big_sigma1 :: "nat \<Rightarrow> nat" where
  "big_sigma1 u = rotr32 6 u XOR rotr32 11 u XOR rotr32 25 u"

definition small_sigma0 :: "nat \<Rightarrow> nat" where
  "small_sigma0 u = rotr32 7 u XOR rotr32 18 u XOR u div 2 ^ 3"

definition small_sigma1 :: "nat \<Rightarrow> nat" where
  "small_sigma1 u = rotr32 17 u XOR rotr32 19 u XOR u div 2 ^ 10"

definition K256 :: "nat list" where
  "K256 =
    [1116352408, 1899447441, 3049323471, 3921009573, 961987163, 1508970993, 2453635748,
     2870763221, 3624381080, 310598401, 607225278, 1426881987, 1925078388, 2162078206,
     2614888103, 3248222580, 3835390401, 4022224774, 264347078, 604807628, 770255983,
     1249150122, 1555081692, 1996064986, 2554220882, 2821834349, 2952996808, 3210313671,
     3336571891, 3584528711, 113926993, 338241895, 666307205, 773529912, 1294757372,
     1396182291, 1695183700, 1986661051, 2177026350, 2456956037, 2730485921, 2820302411,
     3259730800, 3345764771, 3516065817, 3600352804, 4094571909, 275423344, 430227734,
     506948616, 659060556, 883997877, 958139571, 1322822218, 1537002063, 1747873779,
     1955562222, 2024104815, 2227730452, 2361852424, 2428436474, 2756734187, 3204031479,
     3329325298]"

text \<open>The \<open>k\<close> low bytes of \<open>n\<close>, most significant first.\<close>

fun be_bytes :: "nat \<Rightarrow> nat \<Rightarrow> byte list" where
  "be_bytes 0 n = []"
| "be_bytes (Suc k) n = be_bytes k (n div 256) @ [of_nat (n mod 256)]"

definition sha_pad :: "byte list \<Rightarrow> byte list" where
  "sha_pad m =
     m @ [128] @ replicate ((64 - (length m + 9) mod 64) mod 64) 0 @ be_bytes 8 (8 * length m)"

fun chunks :: "nat \<Rightarrow> 'a list \<Rightarrow> 'a list list" where
  "chunks 0 xs = []"
| "chunks (Suc k) xs = take 64 xs # chunks k (drop 64 xs)"

fun be_words :: "nat list \<Rightarrow> nat list" where
  "be_words (a # b # c # d # r) = (((a * 256 + b) * 256 + c) * 256 + d) # be_words r"
| "be_words _ = []"

text \<open>The message schedule: \<open>sha_extend 48\<close> takes the 16 words of a block to the 64 words.\<close>

fun sha_extend :: "nat \<Rightarrow> nat list \<Rightarrow> nat list" where
  "sha_extend 0 w = w"
| "sha_extend (Suc n) w =
     sha_extend n (w @ [(small_sigma1 (w ! (length w - 2)) + w ! (length w - 7)
                     + small_sigma0 (w ! (length w - 15)) + w ! (length w - 16)) mod 4294967296])"

type_synonym sha_state = "nat \<times> nat \<times> nat \<times> nat \<times> nat \<times> nat \<times> nat \<times> nat"

fun sha_round :: "sha_state \<Rightarrow> nat \<times> nat \<Rightarrow> sha_state" where
  "sha_round (a, b, c, d, e, f, g, h) (k, w) =
     (let T1 = (h + big_sigma1 e + ch32 e f g + k + w) mod 4294967296;
          T2 = (big_sigma0 a + maj32 a b c) mod 4294967296
      in ((T1 + T2) mod 4294967296, a, b, c, (d + T1) mod 4294967296, e, f, g))"

fun sha_block :: "sha_state \<Rightarrow> byte list \<Rightarrow> sha_state" where
  "sha_block (a, b, c, d, e, f, g, h) blk =
     (case foldl sha_round (a, b, c, d, e, f, g, h)
             (zip K256 (sha_extend 48 (be_words (map unat blk)))) of
        (a', b', c', d', e', f', g', h') \<Rightarrow>
          ((a + a') mod 4294967296, (b + b') mod 4294967296, (c + c') mod 4294967296,
           (d + d') mod 4294967296, (e + e') mod 4294967296, (f + f') mod 4294967296,
           (g + g') mod 4294967296, (h + h') mod 4294967296))"

definition SHA256 :: "byte list \<Rightarrow> byte list" where
  "SHA256 m =
     (let p = sha_pad m in
      case foldl sha_block
             (1779033703, 3144134277, 1013904242, 2773480762,
              1359893119, 2600822924, 528734635, 1541459225)
             (chunks (length p div 64) p) of
        (a, b, c, d, e, f, g, h) \<Rightarrow> concat (map (be_bytes 4) [a, b, c, d, e, f, g, h]))"

text \<open>The host's digest when it does not reject.\<close>

definition subtle_digest :: "byte list \<Rightarrow> byte list result" where
  "subtle_digest buf = Inr (SHA256 buf)"

section \<open>The encoding as the specification words it\<close>

text \<open>
  Bytes 0 to 3 are the target as a big-endian uint32, bytes 4 to 11 the nonce as a
  big-endian uint64; the commitment is \<open>0x\<close> and the lowercase hex of the digest.
\<close>

definition PASS_TARGET :: number where
  "PASS_TARGET = 4294967295"

definition spec_preimage :: "nat \<Rightarrow> nat \<Rightarrow> byte list" where
  "spec_preimage t n = be_bytes 4 t @ be_bytes 8 n"

definition spec_hex :: "byte list \<Rightarrow> string" where
  "spec_hex d = concat (map (\<lambda>b. [hex_digit (unat b div 16), hex_digit (unat b mod 16)]) d)"

definition is_lower_hex :: "char \<Rightarrow> bool" where
  "is_lower_hex c = (c \<in> set ''0123456789abcdef'')"

definition well_formed :: "string \<Rightarrow> bool" where
  "well_formed c = (take 2 c = ''0x'' \<and> length c = 66 \<and> list_all is_lower_hex (drop 2 c))"

text \<open>The entries a store keeps, said as the specification does: the newest \<open>n\<close>.\<close>

definition newest :: "nat \<Rightarrow> 'a list \<Rightarrow> 'a list" where
  "newest n xs = rev (take n (rev xs))"

definition matches :: "number \<Rightarrow> number \<Rightarrow> number \<Rightarrow> ZkCommitment \<Rightarrow> bool" where
  "matches sid rnd ph c = (sessionId c = sid \<and> round_no c = rnd \<and> phase c = ph)"

text \<open>
  Equality of two strings up to the case of their letters, said without
  \<^verbatim>\<open>toLowerCase\<close>: the strings have the same length and, position by position, the
  same character or the upper-case and the lower-case form of one letter. \<open>toUpperCase\<close>
  writes a string in upper case.
\<close>

definition same_letter :: "char \<Rightarrow> char \<Rightarrow> bool" where
  "same_letter c d =
     (c = d
      \<or> (65 \<le> (of_char c :: nat) \<and> (of_char c :: nat) \<le> 90 \<and> (of_char d :: nat) = of_char c + 32)
      \<or> (65 \<le> (of_char d :: nat) \<and> (of_char d :: nat) \<le> 90 \<and> (of_char c :: nat) = of_char d + 32))"

definition equal_ignoring_case :: "string \<Rightarrow> string \<Rightarrow> bool" where
  "equal_ignoring_case a b = list_all2 same_letter a b"

definition upper_char :: "char \<Rightarrow> char" where
  "upper_char c = (let n = (of_char c :: nat) in
     if 97 \<le> n \<and> n \<le> 122 then char_of (n - 32) else c)"

definition toUpperCase :: "string \<Rightarrow> string" where
  "toUpperCase s = map upper_char s"

text \<open>The value of a string of hex digits, most significant first.\<close>

definition hex_value :: "char \<Rightarrow> nat" where
  "hex_value c = (let n = (of_char c :: nat) in if n < 58 then n - 48 else n - 87)"

definition hex_number :: "string \<Rightarrow> nat" where
  "hex_number s = foldl (\<lambda>v c. 16 * v + hex_value c) 0 s"

section \<open>The bindings\<close>

text \<open>
  \<^verbatim>\<open>MafiaError\<close> of the two revisions of the generated bindings, as the tables of code
  and message they are: \<open>MafiaError_plain\<close> belongs to the contract without
  commit-reveal (sgs\_frontend bindings.ts), \<open>MafiaError\<close> to the contract with it.
\<close>

definition MafiaError_plain :: "(nat \<times> string) list" where
  "MafiaError_plain =
    [(1, ''GameNotFound''), (2, ''GameFull''), (3, ''AlreadyJoined''), (4, ''NotInGame''),
     (5, ''WrongPhase''), (6, ''AlreadyActed''), (7, ''InvalidTarget''), (8, ''NotAlive''),
     (9, ''GameAlreadyOver''), (10, ''NotCreator''), (11, ''SessionExists'')]"

definition MafiaError :: "(nat \<times> string) list" where
  "MafiaError =
    [(1, ''GameNotFound''), (2, ''GameFull''), (3, ''AlreadyJoined''), (4, ''NotInGame''),
     (5, ''WrongPhase''), (6, ''AlreadyActed''), (7, ''InvalidTarget''), (8, ''NotAlive''),
     (9, ''GameAlreadyOver''), (10, ''NotCreator''), (11, ''SessionExists''),
     (12, ''InvalidReveal''), (13, ''NoCommitment'')]"

text \<open>The taxonomy of the specification, in its order.\<close>

definition taxonomy :: "string list" where
  "taxonomy =
    [''GameNotFound'', ''GameFull'', ''AlreadyJoined'', ''NotInGame'', ''WrongPhase'',
     ''AlreadyActed'', ''InvalidTarget'', ''NotAlive'', ''GameAlreadyOver'', ''NotCreator'',
     ''SessionExists'', ''InvalidReveal'', ''NoCommitment'']"

text \<open>
  \<^verbatim>\<open>Slot\<close> and \<^verbatim>\<open>Game\<close>; a \<^verbatim>\<open>u32\<close> is a natural number, \<^verbatim>\<open>Option\<close> an
  option. The slot's \<^verbatim>\<open>commitment\<close> is \<open>slot_commitment\<close> and the game's
  \<^verbatim>\<open>phase\<close> is \<open>game_phase\<close>.
\<close>

record Slot =
  action :: "nat option"
  addr :: "string option"
  alive :: bool
  slot_commitment :: "byte list option"
  role :: nat
  submitted :: bool

record Game =
  creator :: string
  day :: nat
  human_count :: nat
  invest_is_mafia :: bool
  last_investigated :: "nat option"
  last_killed :: "nat option"
  last_saved :: bool
  last_voted_out :: "nat option"
  game_phase :: nat
  slots :: "Slot list"
  wager :: int
  winner :: "nat option"

section \<open>The last-resolution summary of MafiaDuelGame.tsx\<close>

text \<open>
  \<^verbatim>\<open>LastEvent\<close> builds a list of lines, each an icon and a text, and renders nothing
  when there is no game or no line: the model returns the lines. Characters outside
  ASCII are written as words between the same ASCII text (the icons by their names,
  the dash as \<open>--\<close>, the ellipsis as three dots). Reading a field of
  \<^verbatim>\<open>undefined\<close> is a TypeError. The text of a number inside a template literal is
  the host's, the parameter \<open>fmt\<close>.
\<close>

definition ROLE_SHERIFF :: nat where
  "ROLE_SHERIFF = 3"

definition PHASE_NIGHT_COMMIT :: nat where
  "PHASE_NIGHT_COMMIT = 1"

definition ROLE_META :: "nat \<Rightarrow> (string \<times> string) option" where
  "ROLE_META r =
     (if r = 0 then Some (''knife'', ''Mafia'')
      else if r = 1 then Some (''person'', ''Villager'')
      else if r = 2 then Some (''pill'', ''Doctor'')
      else if r = 3 then Some (''star'', ''Sheriff'')
      else None)"

text \<open>\<^verbatim>\<open>xs[i]\<close>, which is \<^verbatim>\<open>undefined\<close> out of range.\<close>

definition at_index :: "'a list \<Rightarrow> nat \<Rightarrow> 'a option" where
  "at_index xs i = (if i < length xs then Some (xs ! i) else None)"

definition shortAddr :: "string \<Rightarrow> string" where
  "shortAddr a = take 6 a @ ''...'' @ slice (- 4) a"

definition slotName :: "(number \<Rightarrow> string) \<Rightarrow> Slot \<Rightarrow> nat \<Rightarrow> string" where
  "slotName fmt sl i =
     (case addr sl of
        Some a \<Rightarrow> if a \<noteq> [] then shortAddr a else ''AI Bot #'' @ fmt (of_nat i + 1)
      | None \<Rightarrow> ''AI Bot #'' @ fmt (of_nat i + 1))"

definition verdict :: "bool \<Rightarrow> string" where
  "verdict is_mafia = (if is_mafia then ''(warning) IS Mafia!'' else ''(check) Town member.'')"

text \<open>The revision without commit-reveal (src/unnamed/part\_000, lines 319 to 350).\<close>

definition LastEvent_plain ::
  "(number \<Rightarrow> string) \<Rightarrow> Game option \<Rightarrow> (string \<times> string) list option result" where
  "LastEvent_plain fmt game =
     (case game of None \<Rightarrow> Inr None | Some g \<Rightarrow>
      case (case last_killed g of None \<Rightarrow> Inr []
            | Some k \<Rightarrow>
               (case at_index (slots g) k of None \<Rightarrow> Inl TypeError
                | Some sl \<Rightarrow>
                    Inr [if last_saved g
                         then (''shield'', slotName fmt sl k @ '' was attacked -- Doctor saved them!'')
                         else (''skull'', slotName fmt sl k @ '' was eliminated by the Mafia.'')]))
      of Inl e \<Rightarrow> Inl e | Inr l1 \<Rightarrow>
      case (case last_investigated g of None \<Rightarrow> Inr []
            | Some k \<Rightarrow>
               (case at_index (slots g) k of None \<Rightarrow> Inl TypeError
                | Some sl \<Rightarrow>
                    Inr [(''magnifier'', ''Sheriff investigated '' @ slotName fmt sl k @ '': ''
                            @ verdict (invest_is_mafia g))]))
      of Inl e \<Rightarrow> Inl e | Inr l2 \<Rightarrow>
      case (case last_voted_out g of None \<Rightarrow> Inr []
            | Some k \<Rightarrow>
               (case at_index (slots g) k of None \<Rightarrow> Inl TypeError
                | Some sl \<Rightarrow>
                   (case ROLE_META (role sl) of None \<Rightarrow> Inl TypeError
                    | Some (icon, label) \<Rightarrow>
                        Inr [(''ballot'', ''Town voted out '' @ slotName fmt sl k
                                @ '' -- they were '' @ icon @ '' '' @ label @ ''!'')])))
      of Inl e \<Rightarrow> Inl e | Inr l3 \<Rightarrow>
      (let lines = l1 @ l2 @ l3 in if lines = [] then Inr None else Inr (Some lines)))"

text \<open>
  The commit-reveal revision (sgs\_frontend bindings.ts, lines 728 to 789, and
  MafiaDuelGame.tsx, lines 374 to 409, which has no ZK line). \<open>me_of\<close> is the
  component's \<^verbatim>\<open>me\<close>, the slot whose address is the viewer's.
\<close>

definition me_of :: "Game \<Rightarrow> string \<Rightarrow> Slot option" where
  "me_of g userAddress = find (\<lambda>sl. addr sl = Some userAddress) (slots g)"

definition targetLabel :: "(number \<Rightarrow> string) \<Rightarrow> number \<Rightarrow> string list \<Rightarrow> string" where
  "targetLabel fmt tgt slotNames =
     (if tgt = 4294967295 then ''Pass / Abstain''
      else if 0 \<le> tgt \<and> of_int \<lfloor>tgt\<rfloor> = tgt \<and> nat \<lfloor>tgt\<rfloor> < length slotNames
           then slotNames ! nat \<lfloor>tgt\<rfloor>
           else ''Slot #'' @ fmt tgt)"

text \<open>The four blocks of the function, in its order: the kill, the vote, the
  investigation (the body of \<^verbatim>\<open>if (isSheriff && game.last_investigated != null)\<close>)
  and the ZK reveal summary.\<close>

definition killed_lines :: "(number \<Rightarrow> string) \<Rightarrow> Game \<Rightarrow> (string \<times> string) list" where
  "killed_lines fmt g =
     (case last_killed g of None \<Rightarrow> []
      | Some k \<Rightarrow>
         (case at_index (slots g) k of None \<Rightarrow> []
          | Some killed \<Rightarrow>
              [if last_saved g
               then (''shield'', slotName fmt killed k @ '' was attacked -- Doctor saved them!'')
               else (''skull'', slotName fmt killed k @ '' was eliminated by the Mafia.'')]))"

definition voted_lines :: "(number \<Rightarrow> string) \<Rightarrow> Game \<Rightarrow> (string \<times> string) list result" where
  "voted_lines fmt g =
     (case last_voted_out g of None \<Rightarrow> Inr []
      | Some k \<Rightarrow>
         (case at_index (slots g) k of None \<Rightarrow> Inr []
          | Some voted \<Rightarrow>
             (case ROLE_META (role voted) of None \<Rightarrow> Inl TypeError
              | Some (icon, label) \<Rightarrow>
                  Inr [(''ballot'', ''Town voted out '' @ slotName fmt voted k
                          @ '' -- they were '' @ icon @ '' '' @ label @ ''!'')])))"

definition investigation_lines :: "(number \<Rightarrow> string) \<Rightarrow> Game \<Rightarrow> (string \<times> string) list" where
  "investigation_lines fmt g =
     (case last_investigated g of None \<Rightarrow> []
      | Some k \<Rightarrow>
         (case at_index (slots g) k of None \<Rightarrow> []
          | Some investigated \<Rightarrow>
              [(''magnifier'', ''[Sheriff] You investigated '' @ slotName fmt investigated k
                  @ '': '' @ verdict (invest_is_mafia g))]))"

definition zk_lines ::
  "(number \<Rightarrow> string) \<Rightarrow> number \<Rightarrow> ZkCommitment storage \<Rightarrow> Game \<Rightarrow> (string \<times> string) list" where
  "zk_lines fmt sid st g =
     (if game_phase g = PHASE_NIGHT_COMMIT \<and> 1 < day g
      then (case getStoredCommitment st sid (of_nat (day g) - 1) (of_nat PHASE_NIGHT_COMMIT) of
              None \<Rightarrow> []
            | Some storedProof \<Rightarrow>
                [(''lock'', ''Your ZK commitment from last night was for '' @ [CHR 0x22]
                    @ targetLabel fmt (target storedProof)
                        (map (\<lambda>(i, sl). slotName fmt sl i) (enumerate 0 (slots g)))
                    @ [CHR 0x22] @ '' -- sha256 verified onchain (check)'')])
      else [])"

definition LastEvent ::
  "(number \<Rightarrow> string) \<Rightarrow> string \<Rightarrow> number \<Rightarrow> ZkCommitment storage \<Rightarrow> Game option \<Rightarrow>
   (string \<times> string) list option result" where
  "LastEvent fmt userAddress sid st game =
     (case game of None \<Rightarrow> Inr None | Some g \<Rightarrow>
      let isSheriff = (case me_of g userAddress of None \<Rightarrow> False | Some m \<Rightarrow> role m = ROLE_SHERIFF);
          l1 = killed_lines fmt g
      in
      case voted_lines fmt g of Inl e \<Rightarrow> Inl e | Inr l2 \<Rightarrow>
      (let l3 = (if isSheriff then investigation_lines fmt g else []);
           l4 = zk_lines fmt sid st g;
           lines = l1 @ l2 @ l3 @ l4
       in if lines = [] then Inr None else Inr (Some lines)))"

text \<open>A game and a viewer for the examples: the viewer holds seat 0 as a Villager.\<close>

definition bot :: "nat \<Rightarrow> Slot" where
  "bot r = \<lparr>action = None, addr = None, alive = True, slot_commitment = None,
            role = r, submitted = False\<rparr>"

definition example_game :: Game where
  "example_game =
     \<lparr>creator = ''GVIEWER1'', day = 1, human_count = 1, invest_is_mafia = True,
      last_investigated = Some 2, last_killed = None, last_saved = False,
      last_voted_out = None, game_phase = 2,
      slots = [(bot 1)\<lparr>addr := Some ''GVIEWER1''\<rparr>, bot 0, bot 0, bot 2, bot 3, bot 1, bot 1, bot 1],
      wager = 100, winner = None\<rparr>"

text \<open>
  A sequence of \<open>zkCommit\<close> calls, each with its own timestamp, random bytes and
  arguments. A call that throws leaves the store as it was (the exception comes
  before \<open>saveAll\<close>): \<open>after_calls\<close> is the store after the calls, \<open>returned\<close> the
  entries the calls returned, oldest first.
\<close>

type_synonym commit_call = "string \<times> byte list \<times> number \<times> number \<times> number \<times> number"

fun zkCommit_call ::
  "(byte list \<Rightarrow> byte list result) \<Rightarrow> commit_call \<Rightarrow> ZkCommitment storage \<Rightarrow>
   (ZkCommitment \<times> ZkCommitment storage) result" where
  "zkCommit_call digest (now, rawBytes, tgt, sid, rnd, ph) st =
     zkCommit digest now rawBytes tgt sid rnd ph st"

fun after_calls ::
  "(byte list \<Rightarrow> byte list result) \<Rightarrow> commit_call list \<Rightarrow> ZkCommitment storage \<Rightarrow>
   ZkCommitment storage" where
  "after_calls digest [] st = st"
| "after_calls digest (c # cs) st =
     (case zkCommit_call digest c st of
        Inl e \<Rightarrow> after_calls digest cs st
      | Inr (entry, st') \<Rightarrow> after_calls digest cs st')"

fun returned ::
  "(byte list \<Rightarrow> byte list result) \<Rightarrow> commit_call list \<Rightarrow> ZkCommitment storage \<Rightarrow>
   ZkCommitment list" where
  "returned digest [] st = []"
| "returned digest (c # cs) st =
     (case zkCommit_call digest c st of
        Inl e \<Rightarrow> returned digest cs st
      | Inr (entry, st') \<Rightarrow> entry # returned digest cs st')"

section \<open>Hexadecimal strings\<close>

lemma hex_digit_lower: "d < 16 \<Longrightarrow> is_lower_hex (hex_digit d)"
  unfolding is_lower_hex_def hex_digit_def by (rule nth_mem) simp

lemma digits16_lower: "list_all is_lower_hex (digits16 n)"
proof (induction n rule: digits16.induct)
  case (1 n)
  show ?case
  proof (cases "n < 16")
    case True
    then show ?thesis by (simp add: digits16.simps [of n] hex_digit_lower)
  next
    case False
    with 1 show ?thesis by (simp add: digits16.simps [of n] hex_digit_lower)
  qed
qed

lemma length_digits16: "n < 16 ^ Suc k \<Longrightarrow> length (digits16 n) \<le> Suc k"
proof (induction k arbitrary: n)
  case 0
  then show ?case by (simp add: digits16.simps [of n])
next
  case (Suc k)
  show ?case
  proof (cases "n < 16")
    case True
    then show ?thesis by (simp add: digits16.simps [of n])
  next
    case False
    have "n div 16 < 16 ^ Suc k" using Suc.prems by (simp add: less_mult_imp_div_less)
    from Suc.IH [OF this] False show ?thesis by (simp add: digits16.simps [of n])
  qed
qed

lemma byte_hex: "padStart 2 CHR ''0'' (toString16 (uint (b :: byte))) = [hex_digit (unat b div 16), hex_digit (unat b mod 16)]"
proof -
  have lt: "unat b < 256" using unsigned_less [of b, where ?'a = nat] by simp
  have n: "nat (uint b) = unat b" by simp
  show ?thesis
  proof (cases "unat b < 16")
    case True
    then show ?thesis
      by (simp add: toString16_def padStart_def n digits16.simps [of "unat b"] hex_digit_def)
  next
    case False
    then have "unat b div 16 < 16" using lt by simp
    with False show ?thesis
      by (simp add: toString16_def padStart_def n digits16.simps [of "unat b"] digits16.simps [of "unat b div 16"])
  qed
qed

lemma lower_char_hex: "is_lower_hex c \<Longrightarrow> lower_char c = c"
  by (auto simp: is_lower_hex_def lower_char_def Let_def)

lemma toLowerCase_hex: "list_all is_lower_hex s \<Longrightarrow> toLowerCase s = s"
  by (induction s) (simp_all add: toLowerCase_def lower_char_hex)

lemma hex_value_digit: "d < 16 \<Longrightarrow> hex_value (hex_digit d) = d"
proof -
  assume "d < 16"
  then have "d \<in> {0,1,2,3,4,5,6,7,8,9,10,11,12,13,14,15}" by (simp add: numeral_eq_Suc) arith
  then show ?thesis by (auto simp: hex_value_def hex_digit_def Let_def)
qed

lemma hex_number_append: "hex_number (s @ [c]) = 16 * hex_number s + hex_value c"
  by (simp add: hex_number_def)

lemma hex_number_digits16: "hex_number (digits16 n) = n"
proof (induction n rule: digits16.induct)
  case (1 n)
  show ?case
  proof (cases "n < 16")
    case True
    then show ?thesis by (simp add: digits16.simps [of n] hex_number_def hex_value_digit)
  next
    case False
    with 1 show ?thesis by (simp add: digits16.simps [of n] hex_number_append hex_value_digit)
  qed
qed

lemma hex_number_zeros: "hex_number (replicate k CHR ''0'' @ s) = hex_number s"
proof -
  have z: "foldl (\<lambda>v c. 16 * v + hex_value c) 0 (replicate k CHR ''0'') = 0"
    by (induction k) (simp_all add: hex_value_def)
  show ?thesis by (simp add: hex_number_def z)
qed

section \<open>The twelve bytes of the preimage\<close>

lemma be_bytes_numeral:
  "be_bytes (numeral k) n = be_bytes (pred_numeral k) (n div 256) @ [of_nat (n mod 256)]"
  by (simp add: numeral_eq_Suc [of k])

lemma be_bytes4: "be_bytes 4 u =
  [of_nat (u div 2 ^ 24 mod 256), of_nat (u div 2 ^ 16 mod 256), of_nat (u div 2 ^ 8 mod 256), of_nat (u mod 256)]"
  by (simp add: be_bytes_numeral div_mult2_eq [symmetric])

lemma be_bytes_append: "be_bytes (j + k) n = be_bytes j (n div 256 ^ k) @ be_bytes k n"
proof (induction k arbitrary: n)
  case 0
  then show ?case by simp
next
  case (Suc k)
  have "be_bytes (j + Suc k) n = be_bytes (j + k) (n div 256) @ [of_nat (n mod 256)]" by simp
  also have "\<dots> = be_bytes j (n div 256 div 256 ^ k) @ be_bytes k (n div 256) @ [of_nat (n mod 256)]"
    by (simp add: Suc.IH)
  finally show ?case by (simp add: div_mult2_eq)
qed

lemma be_bytes_mod: "be_bytes k (n mod 256 ^ k) = be_bytes k n"
proof (induction k arbitrary: n)
  case 0
  then show ?case by simp
next
  case (Suc k)
  have a: "n mod 256 ^ Suc k div 256 = (n div 256) mod 256 ^ k"
    by (simp add: mod_mult2_eq)
  have b: "n mod 256 ^ Suc k mod 256 = n mod 256"
    by (simp add: mod_mod_cancel)
  show ?case by (simp add: a b Suc.IH del: power_Suc)
qed

lemma length_be_bytes [simp]: "length (be_bytes k n) = k"
  by (induction k arbitrary: n) simp_all

lemma rep12: "replicate 12 x = [x, x, x, x, x, x, x, x, x, x, x, x]"
  by (simp add: eval_nat_numeral)

lemma and_mask32: "(x :: int) AND 0xFFFFFFFF = x mod 2 ^ 32"
proof -
  have m: "(0xFFFFFFFF :: int) = mask 32" by (simp add: mask_eq_exp_minus_1)
  show ?thesis unfolding m by (simp only: take_bit_eq_mask [symmetric] take_bit_eq_mod)
qed

lemma ToUint32_of_nat: "ToUint32 (of_nat t) = t mod 2 ^ 32"
  by (simp add: ToUint32_def nat_mod_distrib)

lemma ToUint32_Number: "0 \<le> i \<Longrightarrow> ToUint32 (Number i) = nat (i mod 2 ^ 32)"
  by (simp add: ToUint32_def Number_def)

lemma setUint32_three:
  "(case setUint32 (replicate 12 0) 0 v0 False of Inl e \<Rightarrow> Inl e | Inr b1 \<Rightarrow>
      case setUint32 b1 4 v1 False of Inl e \<Rightarrow> Inl e | Inr b2 \<Rightarrow>
      case setUint32 b2 8 v2 False of Inl e \<Rightarrow> Inl e | Inr b3 \<Rightarrow> F b3)
   = F (be_bytes 4 (ToUint32 v0) @ be_bytes 4 (ToUint32 v1) @ be_bytes 4 (ToUint32 v2))"
  by (simp add: setUint32_def rep12 be_bytes4 Let_def)


lemma ToUint32_lt: "ToUint32 x < 2 ^ 32"
proof -
  define z where "z = (if 0 \<le> x then \<lfloor>x\<rfloor> else \<lceil>x\<rceil>) mod 2 ^ 32"
  have "0 \<le> z" "z < 4294967296" by (simp_all add: z_def)
  then have "nat z < 4294967296" by linarith
  then show ?thesis by (simp add: ToUint32_def z_def)
qed

lemma split64:
  fixes n :: int
  shows "(n mod 2 ^ 64) div 2 ^ 32 = n div 2 ^ 32 mod 2 ^ 32"
    and "(n mod 2 ^ 64) mod 2 ^ 32 = n mod 2 ^ 32"
proof -
  have A: "n mod 2 ^ 64 = 2 ^ 32 * (n div 2 ^ 32 mod 2 ^ 32) + n mod 2 ^ 32"
    using zmod_zmult2_eq [of "2 ^ 32" n "2 ^ 32"] by simp
  have r: "0 \<le> n mod 2 ^ 32" "n mod 2 ^ 32 < 2 ^ 32" by simp_all
  show "(n mod 2 ^ 64) div 2 ^ 32 = n div 2 ^ 32 mod 2 ^ 32"
    unfolding A using r by simp
  show "(n mod 2 ^ 64) mod 2 ^ 32 = n mod 2 ^ 32"
    unfolding A using r by simp
qed

lemma hi_word: "ToUint32 (Number (drop_bit 32 n AND 0xFFFFFFFF)) = nat (n mod 2 ^ 64) div 2 ^ 32"
proof -
  have a: "drop_bit 32 n AND 0xFFFFFFFF = n div 2 ^ 32 mod 2 ^ 32"
    by (simp only: and_mask32 drop_bit_eq_div)
  have c: "0 \<le> n div 2 ^ 32 mod 2 ^ 32" by simp
  have "ToUint32 (Number (drop_bit 32 n AND 0xFFFFFFFF)) = nat (n div 2 ^ 32 mod 2 ^ 32)"
    unfolding a using ToUint32_Number [OF c] by simp
  also have "\<dots> = nat ((n mod 2 ^ 64) div 2 ^ 32)" by (simp only: split64)
  also have "\<dots> = nat (n mod 2 ^ 64) div 2 ^ 32"
    by (simp add: nat_div_distrib)
  finally show ?thesis .
qed

lemma lo_word: "be_bytes 4 (ToUint32 (Number (n AND 0xFFFFFFFF))) = be_bytes 4 (nat (n mod 2 ^ 64))"
proof -
  have c: "0 \<le> n mod 2 ^ 32" by simp
  have "ToUint32 (Number (n AND 0xFFFFFFFF)) = nat (n mod 2 ^ 32)"
    unfolding and_mask32 using ToUint32_Number [OF c] by simp
  also have "\<dots> = nat ((n mod 2 ^ 64) mod 2 ^ 32)" by (simp only: split64)
  also have "\<dots> = nat (n mod 2 ^ 64) mod 256 ^ 4"
    by (simp add: nat_mod_distrib)
  finally show ?thesis by (simp only: be_bytes_mod)
qed

lemma sha256Commitment_preimage:
  "sha256Commitment digest tgt n =
     (case digest (be_bytes 4 (ToUint32 tgt) @ be_bytes 8 (nat (n mod 2 ^ 64))) of
        Inl e \<Rightarrow> Inl e
      | Inr d \<Rightarrow> Inr (''0x'' @ concat (map (\<lambda>b. padStart 2 CHR ''0'' (toString16 (uint b))) d)))"
proof -
  have tg: "ToUint32 (of_nat (ToUint32 tgt)) = ToUint32 tgt"
    using ToUint32_lt [of tgt] by (simp add: ToUint32_of_nat)
  have "be_bytes 8 (nat (n mod 2 ^ 64)) = be_bytes 4 (nat (n mod 2 ^ 64) div 2 ^ 32) @ be_bytes 4 (nat (n mod 2 ^ 64))"
    using be_bytes_append [of 4 4 "nat (n mod 2 ^ 64)"] by simp
  then show ?thesis
    unfolding sha256Commitment_def Let_def setUint32_three
    by (simp only: hi_word lo_word tg)
qed

text \<open>
  C2. For every u32 target and every u64 nonce, \<open>sha256Commitment\<close> hands the digest
  exactly the twelve bytes of the specification (the target as a big-endian uint32, then
  the nonce as a big-endian uint64) and returns \<open>0x\<close> followed by the lowercase hex of
  the digest, for any digest function and so for SHA-256; the pass sentinel
  \<open>PASS_TARGET\<close> is \<open>0xFFFFFFFF\<close> and is encoded as four bytes \<open>0xFF\<close>.
\<close>

theorem sha256Commitment_bit_exact:
  fixes t :: "32 word" and n :: "64 word"
  shows "sha256Commitment digest (of_nat (unat t)) (uint n) =
           (case digest (spec_preimage (unat t) (unat n)) of
              Inl e \<Rightarrow> Inl e
            | Inr d \<Rightarrow> Inr (''0x'' @ spec_hex d))
         \<and> sha256Commitment subtle_digest (of_nat (unat t)) (uint n) =
             Inr (''0x'' @ spec_hex (SHA256 (spec_preimage (unat t) (unat n))))
         \<and> length (spec_preimage (unat t) (unat n)) = 12
         \<and> PASS_TARGET = of_nat (2 ^ 32 - 1)
         \<and> spec_preimage (2 ^ 32 - 1) (unat n) = [255, 255, 255, 255] @ be_bytes 8 (unat n)"
proof -
  have t: "ToUint32 (of_nat (unat t)) = unat t"
    unfolding ToUint32_of_nat using unsigned_less [of t, where ?'a = nat] by simp
  have "uint n mod 2 ^ 64 = uint n"
    using uint_bounded [of n] by simp
  then have n: "nat (uint n mod 2 ^ 64) = unat n" by simp
  have hex: "concat (map (\<lambda>b. padStart 2 CHR ''0'' (toString16 (uint b))) d) = spec_hex d" for d
    by (simp add: spec_hex_def byte_hex)
  have one: "sha256Commitment digest (of_nat (unat t)) (uint n) =
           (case digest (spec_preimage (unat t) (unat n)) of
              Inl e \<Rightarrow> Inl e
            | Inr d \<Rightarrow> Inr (''0x'' @ spec_hex d))" for digest
    by (simp only: sha256Commitment_preimage t n hex spec_preimage_def)
  have sha: "sha256Commitment subtle_digest (of_nat (unat t)) (uint n) =
             Inr (''0x'' @ spec_hex (SHA256 (spec_preimage (unat t) (unat n))))"
    unfolding one [of subtle_digest] by (simp add: subtle_digest_def)
  have two: "length (spec_preimage (unat t) (unat n)) = 12"
    by (simp add: spec_preimage_def)
  have three: "PASS_TARGET = of_nat (2 ^ 32 - 1)"
    by (simp add: PASS_TARGET_def)
  have four: "spec_preimage (2 ^ 32 - 1) (unat n) = [255, 255, 255, 255] @ be_bytes 8 (unat n)"
    by (simp add: spec_preimage_def be_bytes4)
  from one [of digest] sha two three four show ?thesis by blast
qed

section \<open>Commitment strings\<close>

lemma spec_hex_lower: "list_all is_lower_hex (spec_hex d)"
proof -
  have "unat b div 16 < 16" for b :: byte
    using unsigned_less [of b, where ?'a = nat] by simp
  then show ?thesis
    by (induction d) (simp_all add: spec_hex_def hex_digit_lower)
qed

lemma length_spec_hex: "length (spec_hex d) = 2 * length d"
  by (induction d) (simp_all add: spec_hex_def)

lemma bytes_hex: "concat (map (\<lambda>b. padStart 2 CHR ''0'' (toString16 (uint b))) d) = spec_hex d"
  by (simp add: spec_hex_def byte_hex)

lemma sha256Commitment_Inr:
  "sha256Commitment digest tgt n = Inr c \<Longrightarrow>
     \<exists>d. digest (be_bytes 4 (ToUint32 tgt) @ be_bytes 8 (nat (n mod 2 ^ 64))) = Inr d
          \<and> c = ''0x'' @ spec_hex d"
  by (auto simp: sha256Commitment_preimage bytes_hex split: sum.splits)

lemma toLowerCase_Cons: "toLowerCase (c # s) = lower_char c # toLowerCase s"
  by (simp add: toLowerCase_def)

lemma toLowerCase_append: "toLowerCase (a @ b) = toLowerCase a @ toLowerCase b"
  by (simp add: toLowerCase_def)

lemma lower_char_fixed:
  "lower_char CHR ''0'' = CHR ''0''" "lower_char CHR ''x'' = CHR ''x''" "lower_char CHR ''-'' = CHR ''-''"
  by (simp_all add: lower_char_def)

lemma sha256Commitment_lower: "sha256Commitment digest tgt n = Inr c \<Longrightarrow> toLowerCase c = c"
  by (auto dest!: sha256Commitment_Inr
      simp: toLowerCase_Cons lower_char_fixed toLowerCase_hex spec_hex_lower)

lemma toString16_lower: "toLowerCase (toString16 h) = toString16 h"
  by (simp add: toString16_def toLowerCase_Cons lower_char_fixed toLowerCase_hex digits16_lower)

lemma hashHex_lower: "toLowerCase (hashHex h) = hashHex h"
proof -
  have "toLowerCase (replicate k CHR ''0'') = replicate k CHR ''0''" for k
    by (simp add: toLowerCase_def lower_char_fixed)
  then show ?thesis
    by (simp add: hashHex_def padStart_def toLowerCase_Cons toLowerCase_append lower_char_fixed
        toString16_lower)
qed

lemma poseidonCommitment_Inr:
  "poseidonCommitment poseidon2 tgt n = Inr c \<Longrightarrow>
     \<exists>t h. BigInt tgt = Inr t \<and> poseidon2 [t, n] = Inr h \<and> c = hashHex h"
  by (auto simp: poseidonCommitment_def split: sum.splits)

lemma poseidonCommitment_lower: "poseidonCommitment poseidon2 tgt n = Inr c \<Longrightarrow> toLowerCase c = c"
  by (auto dest!: poseidonCommitment_Inr simp: hashHex_lower)

section \<open>Round trip\<close>

lemma zkVerify_sha256Commitment:
  "sha256Commitment digest tgt n = Inr c \<Longrightarrow> zkVerify digest c tgt n = Inr True"
  by (simp add: zkVerify_def try_catch_def)

lemma zkCommit_roundtrip:
  assumes "zkCommit digest now rawBytes tgt sid rnd ph st = Inr (entry, st')"
  shows "zkVerify digest (commitment entry) tgt (nonce entry) = Inr True"
  using assms
  by (auto simp: zkCommit_def Let_def zkVerify_sha256Commitment split: sum.splits)

lemma zkCommit_returns:
  assumes "\<And>buf. \<exists>d. digest buf = Inr d"
  shows "\<exists>entry st'. zkCommit digest now rawBytes tgt sid rnd ph st = Inr (entry, st')"
proof -
  let ?n = "foldl (\<lambda>n byte. push_bit 8 n OR uint byte) 0 rawBytes"
  from assms obtain d
    where "digest (be_bytes 4 (ToUint32 tgt) @ be_bytes 8 (nat (?n mod 2 ^ 64))) = Inr d"
    by blast
  then have "\<exists>c. sha256Commitment digest tgt ?n = Inr c"
    by (simp add: sha256Commitment_preimage)
  then show ?thesis
    by (auto simp: zkCommit_def Let_def)
qed

lemma zkVerify_poseidonCommitment:
  "poseidonCommitment poseidon2 tgt n = Inr c \<Longrightarrow> zkVerify_poseidon poseidon2 c tgt n = Inr True"
  by (simp add: zkVerify_poseidon_def try_catch_def)

lemma slice_50: "slice (- 50) xs = drop (length xs - 50) xs"
proof -
  have "nat (max (int (length xs) + - 50) 0) = length xs - 50" by arith
  then show ?thesis by (simp add: slice_def Let_def)
qed

lemma last_in_slice: "x \<in> set (slice (- 50) (xs @ [x]))"
  by (simp add: slice_50)

lemma saveAll_poseidon_throws:
  "is_BigIntValue (nonce x) \<Longrightarrow> saveAll_poseidon (xs @ [x]) = Inl TypeError"
  using last_in_slice [of x xs]
  by (auto simp: saveAll_poseidon_def JSON_stringify_def list_ex_iff)

text \<open>
  C1 (the Poseidon revision). \<open>zkCommit\<close> of the Poseidon revision never returns a
  commitment: the entry it has built holds a bigint nonce, the entry is the last of the
  items \<open>saveAll\<close> serialises, and \<^verbatim>\<open>JSON.stringify\<close> throws on it. So there is
  no \<^verbatim>\<open>zkCommit(...).commitment\<close> to verify in this revision, whatever the target,
  the random bytes and the store. In the SHA-256 revision \<open>zkCommit\<close> returns whenever
  the digest does and the round trip holds (\<open>zkCommit_returns\<close>,
  \<open>zkCommit_roundtrip\<close>), and so it does for the commitment string of the Poseidon
  revision taken alone (\<open>zkVerify_poseidonCommitment\<close>).
\<close>

theorem zkCommit_poseidon_throws:
  "\<exists>e. zkCommit_poseidon poseidon2 now rawBytes tgt sid rnd ph st = Inl e"
  by (auto simp: zkCommit_poseidon_def Let_def saveAll_poseidon_throws split: sum.splits)

section \<open>Verification\<close>

lemma of_char_lower_char:
  "(of_char (lower_char c) :: nat) =
     (if 65 \<le> (of_char c :: nat) \<and> (of_char c :: nat) \<le> 90 then of_char c + 32 else of_char c)"
  by (simp add: lower_char_def Let_def)

lemma of_char_upper_char:
  "(of_char (upper_char c) :: nat) =
     (if 97 \<le> (of_char c :: nat) \<and> (of_char c :: nat) \<le> 122 then of_char c - 32 else of_char c)"
proof -
  have "(of_char c :: nat) - 32 < 256"
    using nat_of_char_less_256 [of c] by linarith
  then show ?thesis by (simp add: upper_char_def Let_def)
qed

lemma lower_char_eq_iff: "lower_char c = lower_char d \<longleftrightarrow> same_letter c d"
proof -
  have "lower_char c = lower_char d \<longleftrightarrow> (of_char (lower_char c) :: nat) = of_char (lower_char d)"
    by simp
  also have "\<dots> \<longleftrightarrow> same_letter c d"
  proof -
    have e: "c = d \<longleftrightarrow> (of_char c :: nat) = of_char d" by simp
    show ?thesis
      unfolding of_char_lower_char same_letter_def e by presburger
  qed
  finally show ?thesis .
qed

lemma toLowerCase_eq_iff: "toLowerCase a = toLowerCase b \<longleftrightarrow> equal_ignoring_case a b"
proof (induction a arbitrary: b)
  case Nil
  then show ?case by (simp add: toLowerCase_def equal_ignoring_case_def)
next
  case (Cons x a)
  then show ?case
    by (cases b) (simp_all add: toLowerCase_def equal_ignoring_case_def lower_char_eq_iff)
qed

lemma lower_upper_char: "lower_char (upper_char c) = lower_char c"
proof -
  have "(of_char (lower_char (upper_char c)) :: nat) = of_char (lower_char c)"
    unfolding of_char_lower_char of_char_upper_char by presburger
  then show ?thesis by simp
qed

lemma toLowerCase_toUpperCase: "toLowerCase (toUpperCase s) = toLowerCase s"
  by (simp add: toLowerCase_def toUpperCase_def lower_upper_char)

text \<open>
  C3. In both revisions \<open>zkVerify\<close> returns whether the recomputed commitment and the
  given string are equal up to the case of their letters, and \<open>False\<close> when the
  recomputation fails. So the commitment of the scheme written in upper case is
  accepted, and a reveal whose recomputed commitment differs from a stored commitment
  of the scheme is answered \<open>False\<close>.
\<close>

theorem zkVerify_exact:
  "zkVerify digest h tgt n =
     Inr (case sha256Commitment digest tgt n of Inl e \<Rightarrow> False
          | Inr c \<Rightarrow> equal_ignoring_case c h)
   \<and> zkVerify_poseidon poseidon2 h tgt n =
     Inr (case poseidonCommitment poseidon2 tgt n of Inl e \<Rightarrow> False
          | Inr c \<Rightarrow> equal_ignoring_case c h)
   \<and> (sha256Commitment digest tgt n = Inr c \<longrightarrow> zkVerify digest (toUpperCase c) tgt n = Inr True)
   \<and> (poseidonCommitment poseidon2 tgt n = Inr c1
        \<longrightarrow> zkVerify_poseidon poseidon2 (toUpperCase c1) tgt n = Inr True)
   \<and> (sha256Commitment digest t0 n0 = Inr h0 \<and> sha256Commitment digest tgt n = Inr c \<and> c \<noteq> h0
        \<longrightarrow> zkVerify digest h0 tgt n = Inr False)
   \<and> (poseidonCommitment poseidon2 t0 n0 = Inr h1 \<and> poseidonCommitment poseidon2 tgt n = Inr c1
        \<and> c1 \<noteq> h1 \<longrightarrow> zkVerify_poseidon poseidon2 h1 tgt n = Inr False)"
proof -
  have a: "zkVerify digest h tgt n =
     Inr (case sha256Commitment digest tgt n of Inl e \<Rightarrow> False
          | Inr c \<Rightarrow> equal_ignoring_case c h)" for h
    by (simp add: zkVerify_def try_catch_def toLowerCase_eq_iff split: sum.splits)
  have b: "zkVerify_poseidon poseidon2 h tgt n =
     Inr (case poseidonCommitment poseidon2 tgt n of Inl e \<Rightarrow> False
          | Inr c \<Rightarrow> equal_ignoring_case c h)" for h
    by (simp add: zkVerify_poseidon_def try_catch_def toLowerCase_eq_iff split: sum.splits)
  have up: "equal_ignoring_case s (toUpperCase s)" for s
    by (simp only: toLowerCase_eq_iff [symmetric] toLowerCase_toUpperCase)
  have u: "zkVerify digest (toUpperCase c) tgt n = Inr True"
    if "sha256Commitment digest tgt n = Inr c"
    using that by (simp add: a up)
  have v: "zkVerify_poseidon poseidon2 (toUpperCase c1) tgt n = Inr True"
    if "poseidonCommitment poseidon2 tgt n = Inr c1"
    using that by (simp add: b up)
  have c: "zkVerify digest h0 tgt n = Inr False"
    if "sha256Commitment digest t0 n0 = Inr h0" "sha256Commitment digest tgt n = Inr c" "c \<noteq> h0"
    using that sha256Commitment_lower [of digest t0 n0 h0] sha256Commitment_lower [of digest tgt n c]
    by (simp add: a toLowerCase_eq_iff [symmetric])
  have d: "zkVerify_poseidon poseidon2 h1 tgt n = Inr False"
    if "poseidonCommitment poseidon2 t0 n0 = Inr h1" "poseidonCommitment poseidon2 tgt n = Inr c1"
       "c1 \<noteq> h1"
    using that poseidonCommitment_lower [of poseidon2 t0 n0 h1]
      poseidonCommitment_lower [of poseidon2 tgt n c1]
    by (simp add: b toLowerCase_eq_iff [symmetric])
  from a [of h] b [of h] u v c d show ?thesis by blast
qed

lemma sha256Commitment_echo:
  "sha256Commitment Inr (of_nat t) 0 = Inr (''0x'' @ spec_hex (be_bytes 4 (t mod 2 ^ 32) @ be_bytes 8 0))"
  by (simp only: sha256Commitment_preimage ToUint32_of_nat bytes_hex) simp

lemma spec_hex_bytes:
  "spec_hex (be_bytes 4 0 @ be_bytes 8 0) = ''000000000000000000000000''"
  "spec_hex (be_bytes 4 2 @ be_bytes 8 0) = ''000000020000000000000000''"
  "spec_hex (be_bytes 4 10 @ be_bytes 8 0) = ''0000000a0000000000000000''"
  by (simp_all add: spec_hex_def be_bytes_numeral hex_digit_def)

lemma BigInt_of_int: "BigInt (of_int i) = Inr i"
  by (simp add: BigInt_def)

lemma upper_char_xa:
  "upper_char CHR ''x'' = CHR ''X''" "upper_char CHR ''a'' = CHR ''A''"
  "upper_char CHR ''0'' = CHR ''0''"
  unfolding of_char_eq_iff [where ?'a = nat, symmetric] of_char_upper_char by simp_all

lemma upper_example:
  "toUpperCase ''0x0000000a0000000000000000'' = ''0X0000000A0000000000000000''"
  by (simp add: toUpperCase_def upper_char_xa)

theorem zkVerify_exact_witness:
  "zkVerify Inr ''0x000000000000000000000000'' 10 0 = Inr False
   \<and> zkVerify Inr ''0X0000000A0000000000000000'' 10 0 = Inr True
   \<and> ''0X0000000A0000000000000000'' \<noteq> ''0x0000000a0000000000000000''
   \<and> zkVerify_poseidon (\<lambda>xs. Inr (sum_list xs)) (hashHex 0) 10 0 = Inr False
   \<and> zkVerify_poseidon (\<lambda>xs. Inr (sum_list xs)) (toUpperCase (hashHex 10)) 10 0 = Inr True
   \<and> toUpperCase (hashHex 10) \<noteq> hashHex 10"
proof -
  have s0: "sha256Commitment Inr 0 0 = Inr ''0x000000000000000000000000''"
    using sha256Commitment_echo [of 0] by (simp add: spec_hex_bytes)
  have s1: "sha256Commitment Inr 10 0 = Inr ''0x0000000a0000000000000000''"
    using sha256Commitment_echo [of 10] by (simp add: spec_hex_bytes)
  have p0: "poseidonCommitment (\<lambda>xs. Inr (sum_list xs)) 0 0 = Inr (hashHex 0)"
    using BigInt_of_int [of 0] by (simp add: poseidonCommitment_def)
  have p1: "poseidonCommitment (\<lambda>xs. Inr (sum_list xs)) 10 0 = Inr (hashHex 10)"
    using BigInt_of_int [of 10] by (simp add: poseidonCommitment_def)
  have ne: "hashHex 10 \<noteq> hashHex 0"
    by (simp add: hashHex_def toString16_def digits16.simps [of 0] digits16.simps [of 10]
        padStart_def hex_digit_def)
  have ne2: "''0x0000000a0000000000000000'' \<noteq> ''0x000000000000000000000000''" by simp
  have ne3: "''0X0000000A0000000000000000'' \<noteq> ''0x0000000a0000000000000000''" by simp
  have ne4: "toUpperCase (hashHex 10) \<noteq> hashHex 10"
    by (simp add: hashHex_def toUpperCase_def upper_char_xa)
  from zkVerify_exact [where digest = Inr and h = "''0x000000000000000000000000''" and tgt = 10
      and n = 0 and ?poseidon2.0 = "\<lambda>xs. Inr (sum_list xs)" and ?t0.0 = 0 and ?n0.0 = 0
      and ?h0.0 = "''0x000000000000000000000000''" and c = "''0x0000000a0000000000000000''"
      and ?h1.0 = "hashHex 0" and ?c1.0 = "hashHex 10"]
    s0 s1 p0 p1 ne ne2
  have "zkVerify Inr ''0x000000000000000000000000'' 10 0 = Inr False"
    and "zkVerify Inr (toUpperCase ''0x0000000a0000000000000000'') 10 0 = Inr True"
    and "zkVerify_poseidon (\<lambda>xs. Inr (sum_list xs)) (hashHex 0) 10 0 = Inr False"
    and "zkVerify_poseidon (\<lambda>xs. Inr (sum_list xs)) (toUpperCase (hashHex 10)) 10 0 = Inr True"
    by blast+
  with ne3 ne4 show ?thesis unfolding upper_example by blast
qed

text \<open>
  C9. \<open>zkVerify\<close> always returns a boolean, in both revisions: whatever the commitment
  string, the target and the nonce, and whatever the digest or the hash does, the
  result is never an exception, and a failure of the recomputation gives \<open>False\<close>.
\<close>

theorem zkVerify_total:
  "(\<exists>b. zkVerify digest c tgt n = Inr b)
   \<and> (\<exists>b. zkVerify_poseidon poseidon2 c tgt n = Inr b)
   \<and> (sha256Commitment digest tgt n = Inl e \<longrightarrow> zkVerify digest c tgt n = Inr False)
   \<and> (poseidonCommitment poseidon2 tgt n = Inl e \<longrightarrow> zkVerify_poseidon poseidon2 c tgt n = Inr False)"
  by (auto simp: zkVerify_def zkVerify_poseidon_def try_catch_def split: sum.splits)

lemma BigInt_half: "BigInt (3 / 2) = Inl RangeError"
proof -
  have "\<lfloor>3 / 2 :: rat\<rfloor> = 1" by (simp add: floor_eq_iff)
  then show ?thesis by (simp add: BigInt_def)
qed

theorem zkVerify_total_witness:
  "zkVerify (\<lambda>buf. Inl HostError) ''0xzz'' (- 1) (- 5) = Inr False
   \<and> zkVerify_poseidon (\<lambda>xs. Inr (sum_list xs)) ''not hex'' (3 / 2) (- 5) = Inr False"
proof -
  have a: "sha256Commitment (\<lambda>buf. Inl HostError) (- 1) (- 5) = Inl HostError"
    by (simp add: sha256Commitment_preimage)
  have b: "poseidonCommitment (\<lambda>xs. Inr (sum_list xs)) (3 / 2) (- 5) = Inl RangeError"
    by (simp add: poseidonCommitment_def BigInt_half)
  from zkVerify_total [where digest = "\<lambda>buf. Inl HostError" and c = "''0xzz''" and tgt = "- 1"
      and n = "- 5" and e = HostError]
    zkVerify_total [where ?poseidon2.0 = "\<lambda>xs. Inr (sum_list xs)" and c = "''not hex''"
      and tgt = "3 / 2" and n = "- 5" and e = RangeError]
    a b
  show ?thesis by simp
qed

section \<open>The format of a commitment\<close>

lemma digits16_nonempty: "digits16 n \<noteq> []"
  by (simp add: digits16.simps [of n])

lemma well_formed_sha: "length d = 32 \<Longrightarrow> well_formed (''0x'' @ spec_hex d)"
  by (simp add: well_formed_def length_spec_hex spec_hex_lower)

lemma SNARK_FIELD_SIZE_lt: "SNARK_FIELD_SIZE < 2 ^ 256"
  by (simp add: SNARK_FIELD_SIZE_def)

lemma well_formed_hashHex:
  assumes "0 \<le> h" "h < 2 ^ 256"
  shows "well_formed (hashHex h)"
proof -
  have "nat h < 16 ^ Suc 63"
  proof -
    have "(16 :: nat) ^ Suc 63 = nat (2 ^ 256)" by simp
    with assms show ?thesis by (simp only: nat_less_eq_zless)
  qed
  then have len: "length (digits16 (nat h)) \<le> 64"
    using length_digits16 [of "nat h" 63] by simp
  have low: "list_all is_lower_hex (replicate k CHR ''0'')" for k
    by (simp add: list_all_iff is_lower_hex_def)
  from assms len show ?thesis
    by (simp add: well_formed_def hashHex_def padStart_def toString16_def digits16_lower low)
qed

lemma length_SHA256: "length (SHA256 m) = 32"
  by (simp add: SHA256_def Let_def split: prod.splits)

text \<open>
  C10. A commitment string is \<open>0x\<close> followed by exactly 64 lowercase hex digits: the
  one \<open>zkCommit\<close> of the SHA-256 revision returns, when the digest has 32 bytes, and the
  one the Poseidon revision computes, when the hash is an element of the field; the
  field's prime is below \<open>2 ^ 256\<close>.
\<close>

theorem commitment_well_formed:
  "((\<forall>buf d. digest buf = Inr d \<longrightarrow> length d = 32)
      \<and> zkCommit digest now rawBytes tgt sid rnd ph st = Inr (entry, st')
      \<longrightarrow> well_formed (commitment entry))
   \<and> ((\<forall>xs v. poseidon2 xs = Inr v \<longrightarrow> 0 \<le> v \<and> v < SNARK_FIELD_SIZE)
      \<and> poseidonCommitment poseidon2 tgt n = Inr c
      \<longrightarrow> well_formed c)
   \<and> SNARK_FIELD_SIZE < 2 ^ 256"
proof -
  have a: "well_formed (commitment entry)"
    if d: "\<forall>buf d. digest buf = Inr d \<longrightarrow> length d = 32"
      and z: "zkCommit digest now rawBytes tgt sid rnd ph st = Inr (entry, st')"
  proof -
    from z obtain nn where "sha256Commitment digest tgt nn = Inr (commitment entry)"
      by (auto simp: zkCommit_def Let_def split: sum.splits)
    then obtain dd where "digest (be_bytes 4 (ToUint32 tgt) @ be_bytes 8 (nat (nn mod 2 ^ 64))) = Inr dd"
      and c: "commitment entry = ''0x'' @ spec_hex dd"
      using sha256Commitment_Inr by blast
    with d have "length dd = 32" by blast
    with c show ?thesis by (simp only: well_formed_sha)
  qed
  have b: "well_formed c"
    if p: "\<forall>xs v. poseidon2 xs = Inr v \<longrightarrow> 0 \<le> v \<and> v < SNARK_FIELD_SIZE"
      and q: "poseidonCommitment poseidon2 tgt n = Inr c"
  proof -
    from q obtain t h where "poseidon2 [t, n] = Inr h" and c: "c = hashHex h"
      using poseidonCommitment_Inr by blast
    with p have "0 \<le> h" "h < SNARK_FIELD_SIZE" by blast+
    then show ?thesis using SNARK_FIELD_SIZE_lt well_formed_hashHex [of h] c by simp
  qed
  from a b SNARK_FIELD_SIZE_lt show ?thesis by blast
qed

theorem commitment_well_formed_witness:
  "well_formed (''0x'' @ spec_hex (SHA256 (be_bytes 4 3 @ be_bytes 8 5))) \<and> well_formed (hashHex 5)"
proof -
  let ?e = "\<lparr>commitment = ''0x'' @ spec_hex (SHA256 (be_bytes 4 3 @ be_bytes 8 5)), nonce = 5,
             target = 3, sessionId = 7, round_no = 2, phase = 1, createdAt = ''2026-01-01''\<rparr> :: ZkCommitment"
  let ?p = "\<lambda>xs. Inr (sum_list xs mod SNARK_FIELD_SIZE) :: bigint result"
  have s: "sha256Commitment subtle_digest 3 5 = Inr (''0x'' @ spec_hex (SHA256 (be_bytes 4 3 @ be_bytes 8 5)))"
  proof -
    have "ToUint32 3 = 3" using ToUint32_of_nat [of 3] by simp
    then show ?thesis by (simp add: sha256Commitment_preimage subtle_digest_def bytes_hex)
  qed
  have z: "zkCommit subtle_digest ''2026-01-01'' [0, 0, 0, 0, 0, 0, 0, 5] 3 7 2 1 Absent
           = Inr (?e, saveAll (loadAll Absent @ [?e]))"
    by (simp add: zkCommit_def Let_def s)
  have d: "\<forall>buf d. subtle_digest buf = Inr d \<longrightarrow> length d = 32"
    by (auto simp: subtle_digest_def length_SHA256)
  have f: "\<forall>xs v. ?p xs = Inr v \<longrightarrow> 0 \<le> v \<and> v < SNARK_FIELD_SIZE"
    by (auto simp: SNARK_FIELD_SIZE_def)
  have q: "poseidonCommitment ?p 3 2 = Inr (hashHex 5)"
    using BigInt_of_int [of 3] by (simp add: poseidonCommitment_def SNARK_FIELD_SIZE_def)
  from commitment_well_formed [where digest = subtle_digest and now = "''2026-01-01''"
      and rawBytes = "[0, 0, 0, 0, 0, 0, 0, 5]" and tgt = 3 and sid = 7 and rnd = 2 and ph = 1
      and st = Absent and entry = ?e and st' = "saveAll (loadAll Absent @ [?e])"
      and ?poseidon2.0 = ?p and n = 2 and c = "hashHex 5"] z d f q
  show ?thesis by simp
qed

section \<open>The store\<close>

lemma newest_drop: "newest n xs = drop (length xs - n) xs"
  by (simp add: newest_def take_rev)

lemma slice_newest: "slice (- 50) xs = newest 50 xs"
  by (simp add: slice_50 newest_drop)

lemma newest_newest_append: "newest n (newest n xs @ ys) = newest n (xs @ ys)"
  by (simp add: newest_def)

lemma loadAll_saveAll: "loadAll (saveAll items) = newest 50 items"
  by (simp add: loadAll_def saveAll_def slice_newest)

lemma zkCommit_store:
  "zkCommit digest now rawBytes tgt sid rnd ph st = Inr (entry, st') \<Longrightarrow>
     loadAll st' = newest 50 (loadAll st @ [entry])
     \<and> sessionId entry = sid \<and> round_no entry = rnd \<and> phase entry = ph \<and> target entry = tgt"
  by (auto simp: zkCommit_def Let_def loadAll_saveAll split: sum.splits)

lemma scan_back_find:
  "k \<le> length all \<Longrightarrow> scan_back all k sid rnd ph = find (matches sid rnd ph) (rev (take k all))"
proof (induction k)
  case 0
  then show ?case by simp
next
  case (Suc k)
  then have "take (Suc k) all = take k all @ [all ! k]"
    by (simp add: take_Suc_conv_app_nth)
  with Suc show ?case by (simp add: Let_def matches_def)
qed

lemma getStoredCommitment_find:
  "getStoredCommitment st sid rnd ph = find (matches sid rnd ph) (rev (loadAll st))"
  by (simp add: getStoredCommitment_def Let_def scan_back_find)

lemma after_calls_store:
  "loadAll (after_calls digest calls st) =
     (if returned digest calls st = [] then loadAll st
      else newest 50 (loadAll st @ returned digest calls st))"
proof (induction calls arbitrary: st)
  case Nil
  then show ?case by simp
next
  case (Cons c cs)
  obtain now rawBytes tgt sid rnd ph where c: "c = (now, rawBytes, tgt, sid, rnd, ph)"
    by (cases c) auto
  show ?case
  proof (cases "zkCommit digest now rawBytes tgt sid rnd ph st")
    case (Inl e)
    with c Cons.IH [of st] show ?thesis by simp
  next
    case (Inr r)
    obtain entry st' where r: "r = (entry, st')" by (cases r) auto
    from Inr r have st': "loadAll st' = newest 50 (loadAll st @ [entry])"
      using zkCommit_store by blast
    have "newest 50 (newest 50 (loadAll st @ [entry]) @ returned digest cs st')
          = newest 50 ((loadAll st @ [entry]) @ returned digest cs st')"
      by (rule newest_newest_append)
    with c Inr r st' Cons.IH [of st'] show ?thesis by simp
  qed
qed

lemma length_newest: "length (newest n xs) \<le> n"
  by (simp add: newest_def)

text \<open>
  C8. \<open>getStoredCommitment\<close> returns the newest stored entry whose session, round and
  phase are the ones asked for, and nothing when no stored entry matches; after a
  sequence of \<open>zkCommit\<close> calls of which at least one returned, the store holds the
  newest 50 of its earlier entries followed by the returned ones, so at most 50; and
  the entry a call returns is the one found under its own session, round and phase.
\<close>

theorem store_keyed_and_capped:
  "getStoredCommitment st sid rnd ph = find (matches sid rnd ph) (rev (loadAll st))
   \<and> (returned digest calls st \<noteq> [] \<longrightarrow>
        loadAll (after_calls digest calls st) = newest 50 (loadAll st @ returned digest calls st)
        \<and> length (loadAll (after_calls digest calls st)) \<le> 50)
   \<and> (zkCommit digest now rawBytes tgt sid rnd ph st = Inr (entry, st') \<longrightarrow>
        getStoredCommitment st' sid rnd ph = Some entry)"
proof -
  have a: "loadAll (after_calls digest calls st) = newest 50 (loadAll st @ returned digest calls st)
        \<and> length (loadAll (after_calls digest calls st)) \<le> 50"
    if "returned digest calls st \<noteq> []"
    using that by (simp add: after_calls_store length_newest)
  have b: "getStoredCommitment st' sid rnd ph = Some entry"
    if z: "zkCommit digest now rawBytes tgt sid rnd ph st = Inr (entry, st')"
  proof -
    from zkCommit_store [OF z] have l: "loadAll st' = drop (length (loadAll st) - 49) (loadAll st) @ [entry]"
      and m: "matches sid rnd ph entry"
      by (simp_all add: newest_drop matches_def)
    show ?thesis by (simp add: getStoredCommitment_find l m)
  qed
  from a b getStoredCommitment_find show ?thesis by blast
qed

section \<open>A digest computed\<close>

lemma extend_numeral:
  "sha_extend (numeral k) w =
     sha_extend (pred_numeral k)
       (w @ [(small_sigma1 (w ! (length w - 2)) + w ! (length w - 7)
              + small_sigma0 (w ! (length w - 15)) + w ! (length w - 16)) mod 4294967296])"
  by (simp add: numeral_eq_Suc [of k])

lemma chunks_numeral: "chunks (numeral k) xs = take 64 xs # chunks (pred_numeral k) (drop 64 xs)"
  by (simp add: numeral_eq_Suc [of k])

lemma replicate_numeral: "replicate (numeral k) x = x # replicate (pred_numeral k) x"
  by (simp add: numeral_eq_Suc [of k])

lemma example_pad:
  "sha_pad [0, 0, 0, 3, 0, 0, 0, 0, 0, 0, 0, 5] =
     [0, 0, 0, 3, 0, 0, 0, 0, 0, 0, 0, 5, 128, 0, 0, 0, 0, 0, 0, 0, 0, 0, 0, 0, 0, 0, 0, 0, 0, 0, 0, 0,
      0, 0, 0, 0, 0, 0, 0, 0, 0, 0, 0, 0, 0, 0, 0, 0, 0, 0, 0, 0, 0, 0, 0, 0, 0, 0, 0, 0, 0, 0, 0, 96]"
  by (simp add: sha_pad_def be_bytes_numeral replicate_numeral)

lemma example_schedule:
  "sha_extend 48 [3, 0, 5, 2147483648, 0, 0, 0, 0, 0, 0, 0, 0, 0, 0, 0, 96] =
       [3, 0, 5, 2147483648, 0, 0, 0, 0, 0, 0, 0, 0, 0, 0, 0, 96, 3, 171786240, 285343749,
        2281868041, 1074162209, 348648867, 4165241337, 73455881, 3761967624, 2292628111,
        1937763815, 3392833290, 538672590, 194723060, 2513415142, 3760338137, 4205147733,
        1653600959, 2448271585, 2134350162, 1724112164, 3099247969, 2455529899, 41828804,
        2637539667, 1063215368, 23990000, 3571057934, 3319132489, 360119406, 33363920,
        139202149, 4048719858, 2787131921, 3394184164, 567140365, 1463127104, 1707931209,
        715167827, 3096311885, 1918279866, 2957175469, 772019043, 1268937887, 421073536,
        2595131811, 773961163, 1838812538]"
  by (simp add: extend_numeral small_sigma0_def small_sigma1_def rotr32_def)

lemma example_rounds:
  "foldl sha_round
     (1779033703, 3144134277, 1013904242, 2773480762, 1359893119, 2600822924, 528734635, 1541459225)
     (zip K256
       [3, 0, 5, 2147483648, 0, 0, 0, 0, 0, 0, 0, 0, 0, 0, 0, 96, 3, 171786240, 285343749,
        2281868041, 1074162209, 348648867, 4165241337, 73455881, 3761967624, 2292628111,
        1937763815, 3392833290, 538672590, 194723060, 2513415142, 3760338137, 4205147733,
        1653600959, 2448271585, 2134350162, 1724112164, 3099247969, 2455529899, 41828804,
        2637539667, 1063215368, 23990000, 3571057934, 3319132489, 360119406, 33363920,
        139202149, 4048719858, 2787131921, 3394184164, 567140365, 1463127104, 1707931209,
        715167827, 3096311885, 1918279866, 2957175469, 772019043, 1268937887, 421073536,
        2595131811, 773961163, 1838812538])
   = (4142455308, 383595677, 3176427092, 834915891, 3637916699, 343253722, 2933111472, 3617497303)"
  by (simp add: K256_def Let_def big_sigma0_def big_sigma1_def ch32_def maj32_def rotr32_def)

lemma example_digest:
  "SHA256 [0, 0, 0, 3, 0, 0, 0, 0, 0, 0, 0, 5] =
     [96, 242, 192, 115, 210, 68, 227, 34, 249, 195, 97, 198, 215, 19, 195, 109, 41, 228, 134, 154,
      175, 123, 11, 102, 206, 87, 148, 91, 51, 127, 109, 240]"
  by (simp add: SHA256_def example_pad example_schedule example_rounds be_bytes_numeral chunks_numeral)

lemma example_hex:
  "spec_hex [96, 242, 192, 115, 210, 68, 227, 34, 249, 195, 97, 198, 215, 19, 195, 109, 41, 228, 134, 154,
      175, 123, 11, 102, 206, 87, 148, 91, 51, 127, 109, 240]
    = ''60f2c073d244e322f9c361c6d713c36d29e4869aaf7b0b66ce57945b337f6df0''"
  by (simp add: spec_hex_def hex_digit_def)

lemma example_number:
  "hex_number ''60f2c073d244e322f9c361c6d713c36d29e4869aaf7b0b66ce57945b337f6df0''
    = 43850938711506312624522192843317018586026017749958536667701502186277673332208"
  by (simp add: hex_number_def hex_value_def)

lemma sha256Commitment_spec_hex:
  "sha256Commitment digest tgt n =
     (case digest (be_bytes 4 (ToUint32 tgt) @ be_bytes 8 (nat (n mod 2 ^ 64))) of
        Inl e \<Rightarrow> Inl e
      | Inr d \<Rightarrow> Inr (''0x'' @ spec_hex d))"
  by (simp only: sha256Commitment_preimage bytes_hex)

lemma example_commitment:
  "sha256Commitment subtle_digest 3 5
     = Inr ''0x60f2c073d244e322f9c361c6d713c36d29e4869aaf7b0b66ce57945b337f6df0''"
proof -
  have "ToUint32 3 = 3" using ToUint32_of_nat [of 3] by simp
  moreover have "be_bytes 4 3 @ be_bytes 8 5 = [0, 0, 0, 3, 0, 0, 0, 0, 0, 0, 0, 5]"
    by (simp add: be_bytes_numeral)
  ultimately show ?thesis
    by (simp add: sha256Commitment_spec_hex subtle_digest_def example_digest example_hex)
qed

text \<open>The digest of the three bytes of \<open>abc\<close>, the first example of the standard.\<close>

lemma abc_pad:
  "sha_pad [97, 98, 99] =
     [97, 98, 99, 128, 0, 0, 0, 0, 0, 0, 0, 0, 0, 0, 0, 0, 0, 0, 0, 0, 0, 0, 0, 0, 0, 0, 0, 0, 0, 0, 0, 0,
      0, 0, 0, 0, 0, 0, 0, 0, 0, 0, 0, 0, 0, 0, 0, 0, 0, 0, 0, 0, 0, 0, 0, 0, 0, 0, 0, 0, 0, 0, 0, 24]"
  by (simp add: sha_pad_def be_bytes_numeral replicate_numeral)

lemma abc_schedule:
  "sha_extend 48 [1633837952, 0, 0, 0, 0, 0, 0, 0, 0, 0, 0, 0, 0, 0, 0, 24] =
       [1633837952, 0, 0, 0, 0, 0, 0, 0, 0, 0, 0, 0, 0, 0, 0, 24, 1633837952, 983040,
        2108187653, 1610613702, 1050508152, 25426944, 316456923, 3806512014, 3357629466,
        3073800610, 3854317833, 845560923, 2636160359, 3968280267, 1881225380, 3552024379,
        2482346367, 996719219, 2952069057, 4043988066, 176896406, 1924104970, 2483675966,
        610538786, 2672279444, 4037431130, 1042573945, 657669027, 206005234, 2215296807,
        2049510749, 106709978, 4215179723, 3430291419, 3118885940, 2845390439, 2226839261,
        3256115900, 344409900, 2987358873, 4015503821, 3957764664, 2682456414, 2025622859,
        2755645205, 1720397816, 4004225740, 313650667]"
  by (simp add: extend_numeral small_sigma0_def small_sigma1_def rotr32_def)

lemma abc_rounds:
  "foldl sha_round
     (1779033703, 3144134277, 1013904242, 2773480762, 1359893119, 2600822924, 528734635, 1541459225)
     (zip K256
       [1633837952, 0, 0, 0, 0, 0, 0, 0, 0, 0, 0, 0, 0, 0, 0, 24, 1633837952, 983040,
        2108187653, 1610613702, 1050508152, 25426944, 316456923, 3806512014, 3357629466,
        3073800610, 3854317833, 845560923, 2636160359, 3968280267, 1881225380, 3552024379,
        2482346367, 996719219, 2952069057, 4043988066, 176896406, 1924104970, 2483675966,
        610538786, 2672279444, 4037431130, 1042573945, 657669027, 206005234, 2215296807,
        2049510749, 106709978, 4215179723, 3430291419, 3118885940, 2845390439, 2226839261,
        3256115900, 344409900, 2987358873, 4015503821, 3957764664, 2682456414, 2025622859,
        2755645205, 1720397816, 4004225740, 313650667])
   = (1349398616, 3550093669, 80891244, 3093179625, 1593118500, 4212265488, 2492278198, 2518632596)"
  by (simp add: K256_def Let_def big_sigma0_def big_sigma1_def ch32_def maj32_def rotr32_def)

lemma abc_digest:
  "spec_hex (SHA256 [97, 98, 99])
     = ''ba7816bf8f01cfea414140de5dae2223b00361a396177a9cb410ff61f20015ad''"
  by (simp add: SHA256_def abc_pad abc_schedule abc_rounds be_bytes_numeral chunks_numeral
      spec_hex_def hex_digit_def)

text \<open>
  C5. The commitment of the SHA-256 revision for target 3 and nonce 5 is a number at
  least the prime of the field, so no hash that is an element of the field gives the
  same string: for every such \<open>poseidon2\<close> the two commit functions differ at a pair
  of a u32 target and a u64 nonce (the SHA-256 digest being the one of FIPS 180-4).
\<close>

theorem revisions_incompatible:
  assumes "\<forall>xs v. poseidon2 xs = Inr v \<longrightarrow> 0 \<le> v \<and> v < SNARK_FIELD_SIZE"
  shows "\<exists>t n. t < 2 ^ 32 \<and> n < 2 ^ 64
           \<and> poseidonCommitment poseidon2 (of_nat t) (int n)
               \<noteq> sha256Commitment subtle_digest (of_nat t) (int n)"
proof -
  have "poseidonCommitment poseidon2 3 5
        \<noteq> Inr ''0x60f2c073d244e322f9c361c6d713c36d29e4869aaf7b0b66ce57945b337f6df0''"
  proof
    assume eq: "poseidonCommitment poseidon2 3 5
        = Inr ''0x60f2c073d244e322f9c361c6d713c36d29e4869aaf7b0b66ce57945b337f6df0''"
    then obtain t h where h: "poseidon2 [t, 5] = Inr h"
      and c: "''0x60f2c073d244e322f9c361c6d713c36d29e4869aaf7b0b66ce57945b337f6df0'' = hashHex h"
      using poseidonCommitment_Inr by blast
    from h assms have r: "0 \<le> h" "h < SNARK_FIELD_SIZE" by blast+
    from c have "''60f2c073d244e322f9c361c6d713c36d29e4869aaf7b0b66ce57945b337f6df0''
        = padStart 64 CHR ''0'' (toString16 h)"
      by (simp add: hashHex_def)
    then have "hex_number ''60f2c073d244e322f9c361c6d713c36d29e4869aaf7b0b66ce57945b337f6df0''
        = hex_number (padStart 64 CHR ''0'' (toString16 h))"
      by (rule arg_cong)
    also have "\<dots> = nat h"
      using r by (simp add: padStart_def toString16_def hex_number_zeros hex_number_digits16)
    finally have "nat h = 43850938711506312624522192843317018586026017749958536667701502186277673332208"
      by (simp only: example_number)
    with r show False by (simp add: SNARK_FIELD_SIZE_def)
  qed
  then have "poseidonCommitment poseidon2 (of_nat 3) (int 5)
             \<noteq> sha256Commitment subtle_digest (of_nat 3) (int 5)"
    by (simp add: example_commitment)
  moreover have "(3 :: nat) < 2 ^ 32" "(5 :: nat) < 2 ^ 64" by simp_all
  ultimately show ?thesis by blast
qed

theorem revisions_incompatible_witness:
  "\<exists>t n. t < 2 ^ 32 \<and> n < 2 ^ 64
     \<and> poseidonCommitment (\<lambda>xs. Inr (sum_list xs mod SNARK_FIELD_SIZE)) (of_nat t) (int n)
         \<noteq> sha256Commitment subtle_digest (of_nat t) (int n)"
proof -
  have "\<forall>xs v. (Inr (sum_list xs mod SNARK_FIELD_SIZE) :: bigint result) = Inr v
          \<longrightarrow> 0 \<le> v \<and> v < SNARK_FIELD_SIZE"
    by (auto simp: SNARK_FIELD_SIZE_def)
  then show ?thesis by (rule revisions_incompatible)
qed

section \<open>The store at work\<close>

lemma zkCommit_example:
  "zkCommit subtle_digest ''2026-01-01T00:00:00.000Z'' [0, 0, 0, 0, 0, 0, 0, 5] 3 7 2 1 Absent
     = Inr (\<lparr>commitment = ''0x60f2c073d244e322f9c361c6d713c36d29e4869aaf7b0b66ce57945b337f6df0'',
              nonce = 5, target = 3, sessionId = 7, round_no = 2, phase = 1,
              createdAt = ''2026-01-01T00:00:00.000Z''\<rparr>,
            Stored [\<lparr>commitment = ''0x60f2c073d244e322f9c361c6d713c36d29e4869aaf7b0b66ce57945b337f6df0'',
              nonce = 5, target = 3, sessionId = 7, round_no = 2, phase = 1,
              createdAt = ''2026-01-01T00:00:00.000Z''\<rparr>])"
  by (simp add: zkCommit_def Let_def example_commitment loadAll_def saveAll_def slice_50)

theorem store_keyed_and_capped_witness:
  "loadAll (after_calls subtle_digest
      [(''2026-01-01T00:00:00.000Z'', [0, 0, 0, 0, 0, 0, 0, 5], 3, 7, 2, 1)] Absent)
     = newest 50 [\<lparr>commitment = ''0x60f2c073d244e322f9c361c6d713c36d29e4869aaf7b0b66ce57945b337f6df0'',
              nonce = 5, target = 3, sessionId = 7, round_no = 2, phase = 1,
              createdAt = ''2026-01-01T00:00:00.000Z''\<rparr>]
   \<and> getStoredCommitment
        (Stored [\<lparr>commitment = ''0x60f2c073d244e322f9c361c6d713c36d29e4869aaf7b0b66ce57945b337f6df0'',
              nonce = 5, target = 3, sessionId = 7, round_no = 2, phase = 1,
              createdAt = ''2026-01-01T00:00:00.000Z''\<rparr>]) 7 2 1
     = Some \<lparr>commitment = ''0x60f2c073d244e322f9c361c6d713c36d29e4869aaf7b0b66ce57945b337f6df0'',
              nonce = 5, target = 3, sessionId = 7, round_no = 2, phase = 1,
              createdAt = ''2026-01-01T00:00:00.000Z''\<rparr>"
proof -
  let ?e = "\<lparr>commitment = ''0x60f2c073d244e322f9c361c6d713c36d29e4869aaf7b0b66ce57945b337f6df0'',
              nonce = 5, target = 3, sessionId = 7, round_no = 2, phase = 1,
              createdAt = ''2026-01-01T00:00:00.000Z''\<rparr> :: ZkCommitment"
  let ?call = "(''2026-01-01T00:00:00.000Z'', [0, 0, 0, 0, 0, 0, 0, 5 :: byte], 3 :: number, 7 :: number, 2 :: number, 1 :: number)"
  have r: "returned subtle_digest [?call] Absent = [?e]"
    by (simp add: zkCommit_example)
  have l: "loadAll Absent = []" by (simp add: loadAll_def)
  from store_keyed_and_capped [where digest = subtle_digest and calls = "[?call]" and st = Absent
      and now = "''2026-01-01T00:00:00.000Z''" and rawBytes = "[0, 0, 0, 0, 0, 0, 0, 5]"
      and tgt = 3 and sid = 7 and rnd = 2 and ph = 1 and entry = ?e and st' = "Stored [?e]"]
    r l zkCommit_example
  show ?thesis by simp
qed

section \<open>The error taxonomy\<close>

text \<open>
  C7, as stated: every revision of the bindings has the thirteen errors, coded 1 to 13
  in the order of the specification. The bindings of the contract without
  commit-reveal do not.
\<close>

theorem MafiaError_plain_counterexample:
  "\<not> (\<forall>table \<in> {MafiaError, MafiaError_plain}.
         table = zip [1, 2, 3, 4, 5, 6, 7, 8, 9, 10, 11, 12, 13] taxonomy)"
  by (simp add: MafiaError_def MafiaError_plain_def taxonomy_def)

text \<open>
  C7, amended. The bindings of the commit-reveal contract have exactly the thirteen
  errors of the specification, coded 1 to 13 in its order. The bindings of the contract
  without commit-reveal have exactly the first eleven, coded 1 to 11: they have no
  InvalidReveal and no NoCommitment, and no code 12 or 13.
\<close>

theorem MafiaError_tables:
  "MafiaError = zip [1, 2, 3, 4, 5, 6, 7, 8, 9, 10, 11, 12, 13] taxonomy
   \<and> MafiaError_plain = take 11 MafiaError
   \<and> map_of MafiaError_plain 12 = None \<and> map_of MafiaError_plain 13 = None
   \<and> ''InvalidReveal'' \<notin> snd ` set MafiaError_plain
   \<and> ''NoCommitment'' \<notin> snd ` set MafiaError_plain"
  by (simp add: MafiaError_def MafiaError_plain_def taxonomy_def)

section \<open>Who sees the investigation\<close>

lemma me_of_update [simp]:
  "me_of (g\<lparr>last_investigated := li, invest_is_mafia := im\<rparr>) u = me_of g u"
  by (simp add: me_of_def)

lemma LastEvent_hides_investigation:
  assumes "case me_of g userAddress of None \<Rightarrow> True | Some m \<Rightarrow> role m \<noteq> ROLE_SHERIFF"
  shows "LastEvent fmt userAddress sid st (Some (g\<lparr>last_investigated := li, invest_is_mafia := im\<rparr>))
         = LastEvent fmt userAddress sid st (Some g)"
proof -
  have ns: "(case me_of g userAddress of None \<Rightarrow> False | Some m \<Rightarrow> role m = ROLE_SHERIFF) = False"
    using assms by (simp split: option.splits)
  have k: "killed_lines fmt (g\<lparr>last_investigated := li, invest_is_mafia := im\<rparr>) = killed_lines fmt g"
    by (simp add: killed_lines_def split: option.splits)
  have v: "voted_lines fmt (g\<lparr>last_investigated := li, invest_is_mafia := im\<rparr>) = voted_lines fmt g"
    by (simp add: voted_lines_def split: option.splits)
  have z: "zk_lines fmt sid st (g\<lparr>last_investigated := li, invest_is_mafia := im\<rparr>) = zk_lines fmt sid st g"
    by (simp add: zk_lines_def split: option.splits)
  show ?thesis
    by (simp add: LastEvent_def ns k v z Let_def split: sum.splits)
qed

lemma example_viewer:
  "me_of example_game ''GVIEWER1'' = Some ((bot 1)\<lparr>addr := Some ''GVIEWER1''\<rparr>)"
  by (simp add: me_of_def example_game_def)

text \<open>
  C6 (the revision without commit-reveal). The viewer of the example holds a Villager's
  seat, and the summary this revision renders for the game changes with
  \<open>invest_is_mafia\<close> and with \<open>last_investigated\<close>: it shows the investigation to
  every viewer. The commit-reveal revision keeps it from a viewer who is not the
  Sheriff (\<open>LastEvent_hides_investigation\<close>).
\<close>

theorem LastEvent_plain_shows_investigation:
  "(\<exists>m. me_of example_game ''GVIEWER1'' = Some m \<and> role m \<noteq> ROLE_SHERIFF)
   \<and> (\<forall>fmt. LastEvent_plain fmt (Some example_game)
              \<noteq> LastEvent_plain fmt (Some (example_game\<lparr>invest_is_mafia := False\<rparr>)))
   \<and> (\<forall>fmt. LastEvent_plain fmt (Some example_game)
              \<noteq> LastEvent_plain fmt (Some (example_game\<lparr>last_investigated := None\<rparr>)))"
proof -
  have a: "\<exists>m. me_of example_game ''GVIEWER1'' = Some m \<and> role m \<noteq> ROLE_SHERIFF"
    by (simp add: example_viewer bot_def ROLE_SHERIFF_def)
  have b: "LastEvent_plain fmt (Some example_game)
              \<noteq> LastEvent_plain fmt (Some (example_game\<lparr>invest_is_mafia := False\<rparr>))" for fmt
    by (simp add: LastEvent_plain_def example_game_def at_index_def verdict_def bot_def)
  have c: "LastEvent_plain fmt (Some example_game)
              \<noteq> LastEvent_plain fmt (Some (example_game\<lparr>last_investigated := None\<rparr>))" for fmt
    by (simp add: LastEvent_plain_def example_game_def at_index_def verdict_def bot_def)
  from a b c show ?thesis by blast
qed

end
